theory Spec2Isabelle
  imports Main
begin

section \<open>JavaScript values\<close>

text \<open>
  Payloads are opaque to the library except for what it does with them itself: the tests
  \<^verbatim>\<open>typeof data === 'object'\<close>, \<^verbatim>\<open>'data' in data\<close> and \<^verbatim>\<open>message?.data\<close>, the truthiness
  test of \<^verbatim>\<open>filter(arg => !!arg)\<close>, and the \<^verbatim>\<open>JSON.stringify\<close> of the internal listener's
  log line. Plain objects are association lists of own properties;
  \<open>JCircular kvs\<close> is an object with the own properties \<open>kvs\<close> and one more, \<^verbatim>\<open>self\<close>,
  whose value is the object itself (the \<^verbatim>\<open>circularObj\<close> of the repository's tests).
\<close>

datatype jsval =
    JUndefined
  | JNull
  | JBool bool
  | JNum int
  | JStr string
  | JArr "jsval list"
  | JObj "(string \<times> jsval) list"
  | JBigInt int
  | JCircular "(string \<times> jsval) list"

text \<open>
  What a \<^verbatim>\<open>throw\<close> or a rejected promise carries: an error object that the library or
  the engine built, or any value thrown by code outside the library (an application
  callback, the loaded module, the module loader).
\<close>

datatype error = TypeError string | Error string | Thrown jsval

text \<open>
  \<^verbatim>\<open>error.message\<close>: reading a property of \<^verbatim>\<open>undefined\<close> or \<^verbatim>\<open>null\<close> throws a TypeError;
  on any other value the read gives the property or \<^verbatim>\<open>undefined\<close>.
\<close>

fun has_message :: "error \<Rightarrow> bool" where
  "has_message (Thrown JUndefined) = False"
| "has_message (Thrown JNull) = False"
| "has_message e = True"

text \<open>\<^verbatim>\<open>!!arg\<close>\<close>

fun truthy :: "jsval \<Rightarrow> bool" where
  "truthy JUndefined = False"
| "truthy JNull = False"
| "truthy (JBool b) = b"
| "truthy (JNum n) = (n \<noteq> 0)"
| "truthy (JStr s) = (s \<noteq> [])"
| "truthy (JArr xs) = True"
| "truthy (JObj kvs) = True"
| "truthy (JBigInt n) = (n \<noteq> 0)"
| "truthy (JCircular kvs) = True"

text \<open>
  \<^verbatim>\<open>JSON.stringify(value)\<close> throws a TypeError when it reaches a BigInt or an object
  that contains itself; \<^verbatim>\<open>undefined\<close> is skipped or written as \<^verbatim>\<open>null\<close>.
\<close>

fun stringifiable :: "jsval \<Rightarrow> bool" where
  "stringifiable (JBigInt n) = False"
| "stringifiable (JCircular kvs) = False"
| "stringifiable (JArr xs) = list_all stringifiable xs"
| "stringifiable (JObj kvs) = list_all stringifiable (map snd kvs)"
| "stringifiable v = True"

text \<open>\<^verbatim>\<open>typeof data === 'object'\<close>: true of \<^verbatim>\<open>null\<close> as well.\<close>

fun typeof_object :: "jsval \<Rightarrow> bool" where
  "typeof_object JNull = True"
| "typeof_object (JArr xs) = True"
| "typeof_object (JObj kvs) = True"
| "typeof_object (JCircular kvs) = True"
| "typeof_object v = False"

text \<open>
  \<^verbatim>\<open>'data' in data\<close>: the \<^verbatim>\<open>in\<close> operator throws a TypeError when its right operand is
  not an object (a primitive, \<^verbatim>\<open>null\<close> or \<^verbatim>\<open>undefined\<close>).
\<close>

fun data_in :: "jsval \<Rightarrow> error + bool" where
  "data_in (JObj kvs) = Inr (map_of kvs ''data'' \<noteq> None)"
| "data_in (JArr xs) = Inr False"
| "data_in (JCircular kvs) = Inr (map_of kvs ''data'' \<noteq> None)"
| "data_in v = Inl (TypeError ''Cannot use in operator to search for data'')"

text \<open>\<^verbatim>\<open>message?.data\<close>: \<^verbatim>\<open>undefined\<close> unless the value is an object with that property.\<close>

fun opt_data :: "jsval \<Rightarrow> jsval" where
  "opt_data (JObj kvs) = (case map_of kvs ''data'' of Some v \<Rightarrow> v | None \<Rightarrow> JUndefined)"
| "opt_data (JCircular kvs) = (case map_of kvs ''data'' of Some v \<Rightarrow> v | None \<Rightarrow> JUndefined)"
| "opt_data v = JUndefined"

text \<open>The object literal \<^verbatim>\<open>{ data }\<close>.\<close>

definition envelope :: "jsval \<Rightarrow> jsval" where
  "envelope d = JObj [(''data'', d)]"

definition socks_loaded :: jsval where
  "socks_loaded = JStr ''socks loaded''"

section \<open>Environment, handles, callbacks\<close>

text \<open>
  The module-level constants \<^verbatim>\<open>isNode\<close> and \<^verbatim>\<open>isBrowser\<close> of index.js and the test
  \<^verbatim>\<open>typeof Worker !== 'undefined'\<close>.
\<close>

record env =
  isBrowser :: bool
  isNode :: bool
  hasWorker :: bool

text \<open>
  A callback is either the Controller's internal readiness listener or a function of
  the application. An application function is a black box to the library: each call is
  written to the trace with its arguments, and the function then returns
  (\<open>AppCallback\<close>) or throws a value (\<open>Throwing\<close>). A call that the function makes back
  into the library is a step of its own in a script.
\<close>

datatype callback = VelcroAndLaces | AppCallback nat | Throwing nat jsval

text \<open>
  The object returned by the worker factory (Controller side) and the host object
  \<^verbatim>\<open>self\<close> (Peer side): the properties the library reads or writes.
\<close>

record handle =
  has_postMessage :: bool
  has_on :: bool
  has_terminate :: bool
  onmessage :: "callback option"
  listeners :: "callback list"

datatype promise = Pending | Resolved | Rejected error

datatype socks_ref = TheSocks | MockSocks

datatype boots_ref = TheBoots

section \<open>The two objects and the world\<close>

text \<open>
  class WorkBoots. A field that the constructor never assigned is \<^verbatim>\<open>undefined\<close>:
  \<open>None\<close> for the optional ones, \<open>False\<close> for the two flags, which the code only tests
  for truthiness.
\<close>

record workboots =
  wb_readyPromise :: promise
  wb_supportsWorker :: bool
  wb_receivedBeforeReady :: "jsval list list option"
  wb_isReady :: bool
  wb_worker :: "handle option"
  wb_socks :: "socks_ref option"
  wb_onMessageCallback :: "callback option"
  wb_boots :: "boots_ref option"

text \<open>class Socks.\<close>

record socks =
  sk_self :: "handle option"
  sk_postsBeforeReady :: "(jsval \<times> jsval \<times> jsval list) list"
  sk_isReady :: bool
  sk_sentReadyMessage :: bool
  sk_boots :: "boots_ref option"
  sk_onMessageCallback :: "callback option"
  sk_terminateCallback :: "callback option"

text \<open>
  What can be observed from outside the two objects: calls of application callbacks,
  calls of the primitives of the worker handle and of the host, and the calls that cross
  the bridge.
\<close>

datatype event =
    Invoked nat "jsval list"
  | WorkerPostMessage "jsval list"
  | WorkerTerminate
  | SelfPostMessage "jsval list"
  | SelfTerminate
  | BootsOnMessageLocal "jsval list"
  | SocksOnMessageLocal "jsval list"

record world =
  the_boots :: workboots
  the_socks :: socks
  trace :: "event list"
  loadPending :: bool

text \<open>
  A call either returns or throws; the mutations made before a throw stay, so both carry
  the world.
\<close>

datatype outcome = Returns world | Throws error world

fun and_then :: "outcome \<Rightarrow> (world \<Rightarrow> outcome) \<Rightarrow> outcome" where
  "and_then (Returns w) f = f w"
| "and_then (Throws e w) f = Throws e w"

fun world_of :: "outcome \<Rightarrow> world" where
  "world_of (Returns w) = w"
| "world_of (Throws e w) = w"

fun returns :: "outcome \<Rightarrow> bool" where
  "returns (Returns w) = True"
| "returns (Throws e w) = False"

definition emit :: "event \<Rightarrow> world \<Rightarrow> world" where
  "emit e w = w\<lparr>trace := trace w @ [e]\<rparr>"

definition upd_boots :: "(workboots \<Rightarrow> workboots) \<Rightarrow> world \<Rightarrow> world" where
  "upd_boots f w = w\<lparr>the_boots := f (the_boots w)\<rparr>"

definition upd_socks :: "(socks \<Rightarrow> socks) \<Rightarrow> world \<Rightarrow> world" where
  "upd_socks f w = w\<lparr>the_socks := f (the_socks w)\<rparr>"

section \<open>class WorkBoots\<close>

text \<open>\<^verbatim>\<open>resolve(this)\<close>: settles the readiness promise if it is still pending.\<close>

definition resolve :: "world \<Rightarrow> world" where
  "resolve w =
     (case wb_readyPromise (the_boots w) of
        Pending \<Rightarrow> upd_boots (\<lambda>b. b\<lparr>wb_readyPromise := Resolved\<rparr>) w
      | Resolved \<Rightarrow> w
      | Rejected e \<Rightarrow> w)"

text \<open>
  \<^verbatim>\<open>
  const velcroAndLaces = (message, ...rest) => {
    if (message?.data === 'socks loaded') {
      resolve(this);
    } else {
      console.log('received message before socks.ready() was called, '
        + JSON.stringify([message, ...rest]));
      this.receivedBeforeReady.push([message, ...rest]);
    }
  }\<close>
\<close>

definition cannot_stringify :: error where
  "cannot_stringify = TypeError ''JSON.stringify: a BigInt or a circular structure''"

definition velcroAndLaces :: "jsval list \<Rightarrow> world \<Rightarrow> outcome" where
  "velcroAndLaces args w =
     (let message = (case args of [] \<Rightarrow> JUndefined | m # rest \<Rightarrow> m) in
      if opt_data message = socks_loaded then Returns (resolve w)
      else if \<not> list_all stringifiable (message # tl args) then Throws cannot_stringify w
      else (case wb_receivedBeforeReady (the_boots w) of
              None \<Rightarrow> Throws (TypeError ''Cannot read properties of undefined (reading push)'') w
            | Some q \<Rightarrow>
                Returns (upd_boots (\<lambda>b. b\<lparr>wb_receivedBeforeReady := Some (q @ [message # tl args])\<rparr>) w)))"

text \<open>
  The call of the function in a callback slot, \<^verbatim>\<open>this.onMessageCallback(...)\<close>. No call
  site of the library wraps it in \<^verbatim>\<open>try\<close>: what the function throws leaves the method
  that called it.
\<close>

fun invoke :: "callback \<Rightarrow> jsval list \<Rightarrow> world \<Rightarrow> outcome" where
  "invoke VelcroAndLaces args w = velcroAndLaces args w"
| "invoke (AppCallback n) args w = Returns (emit (Invoked n args) w)"
| "invoke (Throwing n v) args w = Throws (Thrown v) (emit (Invoked n args) w)"

text \<open>
  \<^verbatim>\<open>
  onMessageLocal(data, origin, transfer = []) {
    console.log(`sending local message that would have been to origin ${origin}`);
    if (transfer?.length > 0) { console.log(...); }
    console.log(`onMessageCallback ${this.onMessageCallback}`);
    if (this.onMessageCallback) {
      this.onMessageCallback({ data });
    } else {
      throw new Error('onMessageLocal should not be called without onMessageCallback defined');
    }
  }\<close>
  The log lines convert \<^verbatim>\<open>origin\<close> and the callback to strings, which does not throw on
  any value of \<open>jsval\<close> (there is no Symbol among them) nor on a function.
\<close>

definition missing_callback :: error where
  "missing_callback = Error ''onMessageLocal should not be called without onMessageCallback defined''"

definition WorkBoots_onMessageLocal :: "jsval \<Rightarrow> jsval \<Rightarrow> jsval list \<Rightarrow> world \<Rightarrow> outcome" where
  "WorkBoots_onMessageLocal data origin transfer w =
     (case wb_onMessageCallback (the_boots w) of
        Some cb \<Rightarrow> invoke cb [envelope data] w
      | None \<Rightarrow> Throws missing_callback w)"

text \<open>
  \<^verbatim>\<open>this.receivedBeforeReady.forEach(m => this.onMessageCallback && this.onMessageCallback(...m))\<close>
  visits the elements the array had when the loop began and reads the callback at each one.
\<close>

fun replay :: "jsval list list \<Rightarrow> world \<Rightarrow> outcome" where
  "replay [] w = Returns w"
| "replay (m # ms) w =
     and_then
       (case wb_onMessageCallback (the_boots w) of
          None \<Rightarrow> Returns w
        | Some cb \<Rightarrow> invoke cb m w)
       (replay ms)"

text \<open>
  \<^verbatim>\<open>
  onMessage(callback) {
    this.onMessageCallback = callback;
    if (this.worker) {
      if (isBrowser) {
        this.worker.onmessage = callback;
      } else if (isNode) {
        if (typeof this.worker.on === 'function') {
          this.worker.on('message', callback);
        } else {
          this.worker.onmessage = callback;
        }
      }
    }
    if (this.receivedBeforeReady.length) {
      this.receivedBeforeReady.forEach(...);
    }
  }\<close>
\<close>

definition attach :: "env \<Rightarrow> callback \<Rightarrow> handle \<Rightarrow> handle" where
  "attach env cb h =
     (if isBrowser env then h\<lparr>onmessage := Some cb\<rparr>
      else if isNode env then
        (if has_on h then h\<lparr>listeners := listeners h @ [cb]\<rparr> else h\<lparr>onmessage := Some cb\<rparr>)
      else h)"

definition WorkBoots_onMessage :: "env \<Rightarrow> callback \<Rightarrow> world \<Rightarrow> outcome" where
  "WorkBoots_onMessage env cb w =
     (let w1 = upd_boots (\<lambda>b. b\<lparr>wb_onMessageCallback := Some cb\<rparr>) w;
          w2 = (case wb_worker (the_boots w1) of
                  None \<Rightarrow> w1
                | Some h \<Rightarrow> upd_boots (\<lambda>b. b\<lparr>wb_worker := Some (attach env cb h)\<rparr>) w1)
      in case wb_receivedBeforeReady (the_boots w2) of
           None \<Rightarrow> Throws (TypeError ''Cannot read properties of undefined (reading length)'') w2
         | Some q \<Rightarrow> replay q w2)"

text \<open>
  The stand-in Peer that the constructor synthesizes when the module load fails:
  \<^verbatim>\<open>
  onMessageLocal: (message) => {
    if (this.onMessageCallback) {
      this.onMessageCallback({ data: message.data });
    }
  }\<close>
  (\<^verbatim>\<open>this\<close> is the Controller).
\<close>

definition mock_onMessageLocal :: "jsval \<Rightarrow> world \<Rightarrow> outcome" where
  "mock_onMessageLocal message w =
     (case wb_onMessageCallback (the_boots w) of
        Some cb \<Rightarrow> invoke cb [envelope (opt_data message)] w
      | None \<Rightarrow> Returns w)"

section \<open>class Socks\<close>

text \<open>\<^verbatim>\<open>new Socks(self)\<close>\<close>

definition Socks_constructor :: "handle option \<Rightarrow> socks" where
  "Socks_constructor self =
     \<lparr>sk_self = self, sk_postsBeforeReady = [], sk_isReady = False,
      sk_sentReadyMessage = False, sk_boots = None, sk_onMessageCallback = None,
      sk_terminateCallback = None\<rparr>"

text \<open>
  \<^verbatim>\<open>
  isWorkerSupported() {
    if (isBrowser) {
      return typeof Worker !== 'undefined' && !!this.self;
    } else if (isNode) {
      return !!this.self;
    }
    return false;
  }\<close>
\<close>

definition isWorkerSupported :: "env \<Rightarrow> socks \<Rightarrow> bool" where
  "isWorkerSupported env s =
     (if isBrowser env then hasWorker env \<and> sk_self s \<noteq> None
      else if isNode env then sk_self s \<noteq> None
      else False)"

text \<open>
  \<^verbatim>\<open>
  onMessageLocal(data, origin, transfer = []) {
    console.log(`sending local message that would have been to origin ${origin}`);
    if (transfer?.length > 0) { console.log(...); }
    console.log(this.onMessageCallback);
    if (this.onMessageCallback) {
      this.onMessageCallback(data);
    } else {
      throw new Error('onMessageLocal should not be called without onMessageCallback defined');
    }
  }\<close>
\<close>

definition Socks_onMessageLocal :: "jsval \<Rightarrow> jsval \<Rightarrow> jsval list \<Rightarrow> world \<Rightarrow> outcome" where
  "Socks_onMessageLocal data origin transfer w =
     (case sk_onMessageCallback (the_socks w) of
        Some cb \<Rightarrow> invoke cb [data] w
      | None \<Rightarrow> Throws missing_callback w)"

text \<open>\<^verbatim>\<open>this.self.postMessage(...args)\<close>\<close>

definition self_postMessage :: "jsval list \<Rightarrow> world \<Rightarrow> outcome" where
  "self_postMessage args w =
     (case sk_self (the_socks w) of
        None \<Rightarrow> Throws (TypeError ''Cannot read properties of undefined (reading postMessage)'') w
      | Some h \<Rightarrow>
          if has_postMessage h then Returns (emit (SelfPostMessage args) w)
          else Throws (TypeError ''this.self.postMessage is not a function'') w)"

text \<open>\<^verbatim>\<open>this.boots.onMessageLocal(...args)\<close>, the call that crosses the bridge to the Controller.\<close>

definition boots_onMessageLocal :: "jsval \<Rightarrow> jsval \<Rightarrow> jsval list \<Rightarrow> jsval list \<Rightarrow> world \<Rightarrow> outcome" where
  "boots_onMessageLocal data origin transfer args w =
     (case sk_boots (the_socks w) of
        None \<Rightarrow> Throws (TypeError ''Cannot read properties of undefined (reading onMessageLocal)'') w
      | Some TheBoots \<Rightarrow>
          WorkBoots_onMessageLocal data origin transfer (emit (BootsOnMessageLocal args) w))"

text \<open>
  \<^verbatim>\<open>const message = (typeof data === 'object' && 'data' in data) ? data : { data };\<close>
\<close>

definition Socks_message :: "jsval \<Rightarrow> error + jsval" where
  "Socks_message data =
     (if typeof_object data then
        (case data_in data of
           Inl e \<Rightarrow> Inl e
         | Inr b \<Rightarrow> Inr (if b then data else envelope data))
      else Inr (envelope data))"

text \<open>
  \<^verbatim>\<open>
  postMessage(data, origin, transfer = []) {
    if (!this.isReady) {
      this.postsBeforeReady.push([data, origin, transfer]);
      return;
    }
    const message = (typeof data === 'object' && 'data' in data) ? data : { data };
    if (this.isWorkerSupported()) {
      if (isBrowser) {
        this.self.postMessage(...[data, origin, transfer.length > 0 ? transfer : undefined].filter(arg => !!arg));
      } else if (isNode) {
        this.self.postMessage(data, transfer);
      }
    } else {
      this.boots.onMessageLocal(message, origin, transfer);
    }
  }\<close>
\<close>

definition Socks_postMessage :: "env \<Rightarrow> jsval \<Rightarrow> jsval \<Rightarrow> jsval list \<Rightarrow> world \<Rightarrow> outcome" where
  "Socks_postMessage env data origin transfer w =
     (if \<not> sk_isReady (the_socks w) then
        Returns (upd_socks (\<lambda>s. s\<lparr>sk_postsBeforeReady :=
                   sk_postsBeforeReady s @ [(data, origin, transfer)]\<rparr>) w)
      else
        (case Socks_message data of
           Inl e \<Rightarrow> Throws e w
         | Inr message \<Rightarrow>
             if isWorkerSupported env (the_socks w) then
               (if isBrowser env then
                  self_postMessage
                    (filter truthy [data, origin, if transfer \<noteq> [] then JArr transfer else JUndefined]) w
                else if isNode env then self_postMessage [data, JArr transfer] w
                else Returns w)
             else boots_onMessageLocal message origin transfer [message, origin, JArr transfer] w))"

text \<open>
  \<^verbatim>\<open>
  processReadyMessages() {
    if (this.sentReadyMessage) {
      this.postsBeforeReady.forEach(args => this.postMessage(...args));
      this.postsBeforeReady = [];
    }
  }\<close>
  The loop visits the tuples the queue held when it began.
\<close>

fun forEach_postMessage :: "env \<Rightarrow> (jsval \<times> jsval \<times> jsval list) list \<Rightarrow> world \<Rightarrow> outcome" where
  "forEach_postMessage env [] w = Returns w"
| "forEach_postMessage env (args # rest) w =
     and_then
       (case args of (data, origin, transfer) \<Rightarrow> Socks_postMessage env data origin transfer w)
       (forEach_postMessage env rest)"

definition processReadyMessages :: "env \<Rightarrow> world \<Rightarrow> outcome" where
  "processReadyMessages env w =
     (if sk_sentReadyMessage (the_socks w) then
        and_then (forEach_postMessage env (sk_postsBeforeReady (the_socks w)) w)
          (\<lambda>w'. Returns (upd_socks (\<lambda>s. s\<lparr>sk_postsBeforeReady := []\<rparr>) w'))
      else Returns w)"

text \<open>
  \<^verbatim>\<open>
  ready() {
    if (this.isWorkerSupported()) {
      this.postMessage("socks loaded");
      this.sentReadyMessage = true;
    } else {
      if (this.boots) {
        this.boots.onMessageLocal("socks loaded");
        this.sentReadyMessage = true;
      }
    }
    this.isReady = true;
    this.processReadyMessages();
  }\<close>
\<close>

definition Socks_ready :: "env \<Rightarrow> world \<Rightarrow> outcome" where
  "Socks_ready env w =
     and_then
       (if isWorkerSupported env (the_socks w) then
          and_then (Socks_postMessage env socks_loaded JUndefined [] w)
            (\<lambda>w'. Returns (upd_socks (\<lambda>s. s\<lparr>sk_sentReadyMessage := True\<rparr>) w'))
        else if sk_boots (the_socks w) \<noteq> None then
          and_then (boots_onMessageLocal socks_loaded JUndefined [] [socks_loaded] w)
            (\<lambda>w'. Returns (upd_socks (\<lambda>s. s\<lparr>sk_sentReadyMessage := True\<rparr>) w'))
        else Returns w)
       (\<lambda>w'. processReadyMessages env (upd_socks (\<lambda>s. s\<lparr>sk_isReady := True\<rparr>) w'))"

text \<open>
  \<^verbatim>\<open>
  enterBoots(boots) {
    this.boots = boots;
    if (this.isReady && !this.sentReadyMessage) {
      this.ready();
    }
    if (this.self?.onmessage) {
      this.onMessageCallback = this.self.onmessage;
    }
    this.self = undefined;
  }\<close>
\<close>

definition capture_onmessage :: "socks \<Rightarrow> socks" where
  "capture_onmessage s =
     (case sk_self s of
        None \<Rightarrow> s
      | Some h \<Rightarrow>
          (case onmessage h of
             None \<Rightarrow> s
           | Some cb \<Rightarrow> s\<lparr>sk_onMessageCallback := Some cb\<rparr>))"

definition Socks_enterBoots :: "env \<Rightarrow> world \<Rightarrow> outcome" where
  "Socks_enterBoots env w =
     (let w1 = upd_socks (\<lambda>s. s\<lparr>sk_boots := Some TheBoots\<rparr>) w in
      and_then
        (if sk_isReady (the_socks w1) \<and> \<not> sk_sentReadyMessage (the_socks w1)
         then Socks_ready env w1 else Returns w1)
        (\<lambda>w2. Returns (upd_socks (\<lambda>s. (capture_onmessage s)\<lparr>sk_self := None\<rparr>) w2)))"

text \<open>
  \<^verbatim>\<open>
  onMessage(callback) {
    if (this.isWorkerSupported()) {
      if (isBrowser) {
        this.self.onmessage = callback;
      } else if (isNode) {
        if (typeof this.self.on === 'function') {
          this.self.on('message', callback);
        } else {
          this.self.onmessage = callback;
        }
      }
    } else {
      this.onMessageCallback = callback;
    }
  }\<close>
\<close>

definition Socks_onMessage :: "env \<Rightarrow> callback \<Rightarrow> world \<Rightarrow> outcome" where
  "Socks_onMessage env cb w =
     (if isWorkerSupported env (the_socks w) then
        Returns (upd_socks (\<lambda>s. s\<lparr>sk_self := map_option (attach env cb) (sk_self s)\<rparr>) w)
      else Returns (upd_socks (\<lambda>s. s\<lparr>sk_onMessageCallback := Some cb\<rparr>) w))"

text \<open>
  \<^verbatim>\<open>
  terminate() {
    this.terminateCallback && this.terminateCallback();
    if (typeof this.self?.terminate === 'function') this.self?.terminate();
  }
  onTerminate(callback) {
    this.terminateCallback = callback;
  }\<close>
\<close>

definition Socks_terminate :: "world \<Rightarrow> outcome" where
  "Socks_terminate w =
     and_then
       (case sk_terminateCallback (the_socks w) of
          None \<Rightarrow> Returns w
        | Some cb \<Rightarrow> invoke cb [] w)
       (\<lambda>w1. case sk_self (the_socks w1) of
                None \<Rightarrow> Returns w1
              | Some h \<Rightarrow> if has_terminate h then Returns (emit SelfTerminate w1) else Returns w1)"

definition Socks_onTerminate :: "callback \<Rightarrow> world \<Rightarrow> outcome" where
  "Socks_onTerminate cb w = Returns (upd_socks (\<lambda>s. s\<lparr>sk_terminateCallback := Some cb\<rparr>) w)"

section \<open>class WorkBoots, continued\<close>

text \<open>
  \<^verbatim>\<open>const message = 'data' in data ? data : { data };\<close>
\<close>

definition WorkBoots_message :: "jsval \<Rightarrow> error + jsval" where
  "WorkBoots_message data =
     (case data_in data of
        Inl e \<Rightarrow> Inl e
      | Inr b \<Rightarrow> Inr (if b then data else envelope data))"

text \<open>
  \<^verbatim>\<open>this.supportsWorker && this.worker && typeof this.worker.postMessage === 'function'\<close>
\<close>

definition can_post :: "workboots \<Rightarrow> bool" where
  "can_post b =
     (wb_supportsWorker b \<and> (case wb_worker b of None \<Rightarrow> False | Some h \<Rightarrow> has_postMessage h))"

text \<open>
  \<^verbatim>\<open>
  postMessage(data, origin = null, transfer = []) {
    if (!this.isReady) {
      this.onMessageCallback(data, origin, transfer);
      return;
    }
    const message = 'data' in data ? data : { data };
    if (this.supportsWorker && this.worker && typeof this.worker.postMessage === 'function') {
      if (isBrowser) {
        this.worker.postMessage(...[data, transfer.length > 0 ? transfer : undefined].filter(arg => !!arg));
      } else if (isNode) {
        this.worker.postMessage(data, transfer);
      }
    } else if (this.socks && typeof this.socks.onMessageLocal === 'function') {
      this.socks.onMessageLocal(message, transfer);
    }
  }\<close>
  An omitted \<^verbatim>\<open>origin\<close> is \<open>JUndefined\<close> and takes the default \<^verbatim>\<open>null\<close>; an omitted
  \<^verbatim>\<open>transfer\<close> is the empty list.
\<close>

definition not_a_function :: error where
  "not_a_function = TypeError ''this.onMessageCallback is not a function''"

definition WorkBoots_postMessage :: "env \<Rightarrow> jsval \<Rightarrow> jsval \<Rightarrow> jsval list \<Rightarrow> world \<Rightarrow> outcome" where
  "WorkBoots_postMessage env data origin0 transfer w =
     (let origin = (if origin0 = JUndefined then JNull else origin0) in
      if \<not> wb_isReady (the_boots w) then
        (case wb_onMessageCallback (the_boots w) of
           None \<Rightarrow> Throws not_a_function w
         | Some cb \<Rightarrow> invoke cb [data, origin, JArr transfer] w)
      else
        (case WorkBoots_message data of
           Inl e \<Rightarrow> Throws e w
         | Inr message \<Rightarrow>
             if can_post (the_boots w) then
               (if isBrowser env then
                  Returns (emit (WorkerPostMessage
                    (filter truthy [data, if transfer \<noteq> [] then JArr transfer else JUndefined])) w)
                else if isNode env then Returns (emit (WorkerPostMessage [data, JArr transfer]) w)
                else Returns w)
             else
               (case wb_socks (the_boots w) of
                  None \<Rightarrow> Returns w
                | Some TheSocks \<Rightarrow>
                    Socks_onMessageLocal message (JArr transfer) []
                      (emit (SocksOnMessageLocal [message, JArr transfer]) w)
                | Some MockSocks \<Rightarrow>
                    mock_onMessageLocal message
                      (emit (SocksOnMessageLocal [message, JArr transfer]) w))))"

text \<open>
  \<^verbatim>\<open>
  terminate() {
    if (this.supportsWorker && this.worker && typeof this.worker.terminate === 'function') {
      if (isBrowser) {
        this.worker.terminate();
      } else if (isNode) {
        this.worker.terminate();
      }
    } else if (this.socks && typeof this.socks.terminate === 'function') {
      this.socks.terminate();
    }
  }\<close>
\<close>

definition can_terminate :: "workboots \<Rightarrow> bool" where
  "can_terminate b =
     (wb_supportsWorker b \<and> (case wb_worker b of None \<Rightarrow> False | Some h \<Rightarrow> has_terminate h))"

definition WorkBoots_terminate :: "env \<Rightarrow> world \<Rightarrow> outcome" where
  "WorkBoots_terminate env w =
     (if can_terminate (the_boots w) then
        (if isBrowser env \<or> isNode env then Returns (emit WorkerTerminate w) else Returns w)
      else
        (case wb_socks (the_boots w) of
           None \<Rightarrow> Returns w
         | Some TheSocks \<Rightarrow> Socks_terminate w
         | Some MockSocks \<Rightarrow> Returns w))"

text \<open>\<^verbatim>\<open>ready() { return this.readyPromise; }\<close>\<close>

definition WorkBoots_ready :: "world \<Rightarrow> promise" where
  "WorkBoots_ready w = wb_readyPromise (the_boots w)"

text \<open>
  \<^verbatim>\<open>
  detectWorkerSupport() {
    if (isBrowser) {
      return typeof Worker !== 'undefined';
    } else if (isNode) {
      return true;
    }
    return false;
  }\<close>
\<close>

definition detectWorkerSupport :: "env \<Rightarrow> bool" where
  "detectWorkerSupport env =
     (if isBrowser env then hasWorker env else if isNode env then True else False)"

text \<open>
  The worker factory, supplied or default, is represented by what calling it on the
  descriptor does: it throws, or it returns a value, \<open>None\<close> when that value is falsy.
\<close>

datatype factory = FactoryThrows error | FactoryReturns "handle option"

text \<open>An object on which the constructor returned before assigning any other field.\<close>

definition no_socksFile :: workboots where
  "no_socksFile =
     \<lparr>wb_readyPromise = Rejected (Error ''no socksFile defined!''),
      wb_supportsWorker = False, wb_receivedBeforeReady = None, wb_isReady = False,
      wb_worker = None, wb_socks = None, wb_onMessageCallback = None, wb_boots = None\<rparr>"

text \<open>
  \<^verbatim>\<open>
  constructor({ socksFile, instantiateWorker = null }) {
    if (socksFile === undefined) {
      this.readyPromise = Promise.reject(new Error('no socksFile defined!'));
      return;
    }
    this.supportsWorker = this.detectWorkerSupport();
    this.receivedBeforeReady = [];
    this.isReady = false;
    ...
    this.readyPromise = new Promise(resolve => {
      const velcroAndLaces = ...
      this.onMessage(velcroAndLaces);
      if (this.supportsWorker) {
        try {
          this.worker = instantiateWorker(socksFile);
          this.supportsWorker = true;
          this.isReady = true;
        } catch (e) {
          this.worker = undefined;
          this.supportsWorker = false;
        }
      }
      if (!this.supportsWorker || !this.worker) {
        this.supportsWorker = false;
        this.loadSocksFile(socksFile).then(...).catch(...);
      } else if (this.worker) {
        resolve(this);
      }
    });
  }\<close>
  The module load is asynchronous: the constructor leaves it pending, and its two
  handlers run later (\<open>loadSocksFile_settled\<close>). In index.js one more closing brace
  follows the last branch; the constructor is read here as its indentation and the older
  copy of the class have it.
\<close>

definition try_instantiateWorker :: "factory \<Rightarrow> workboots \<Rightarrow> workboots" where
  "try_instantiateWorker instantiateWorker b =
     (if wb_supportsWorker b then
        (case instantiateWorker of
           FactoryReturns h \<Rightarrow> b\<lparr>wb_worker := h, wb_supportsWorker := True, wb_isReady := True\<rparr>
         | FactoryThrows e \<Rightarrow> b\<lparr>wb_worker := None, wb_supportsWorker := False\<rparr>)
      else b)"

definition WorkBoots_constructor :: "env \<Rightarrow> string option \<Rightarrow> factory \<Rightarrow> world \<Rightarrow> outcome" where
  "WorkBoots_constructor env socksFile instantiateWorker w =
     (case socksFile of
        None \<Rightarrow> Returns (w\<lparr>the_boots := no_socksFile\<rparr>)
      | Some f \<Rightarrow>
          and_then
            (WorkBoots_onMessage env VelcroAndLaces
               (w\<lparr>the_boots :=
                    \<lparr>wb_readyPromise = Pending, wb_supportsWorker = detectWorkerSupport env,
                     wb_receivedBeforeReady = Some [], wb_isReady = False, wb_worker = None,
                     wb_socks = None, wb_onMessageCallback = None, wb_boots = None\<rparr>\<rparr>))
            (\<lambda>w1.
               let w2 = upd_boots (try_instantiateWorker instantiateWorker) w1 in
               if \<not> wb_supportsWorker (the_boots w2) \<or> wb_worker (the_boots w2) = None then
                 Returns ((upd_boots (\<lambda>b. b\<lparr>wb_supportsWorker := False\<rparr>) w2)\<lparr>loadPending := True\<rparr>)
               else Returns (resolve w2)))"

text \<open>
  How the promise of \<^verbatim>\<open>loadSocksFile\<close> settles: rejected with a reason, or fulfilled with
  a module that exports \<^verbatim>\<open>socks\<close> (the Peer of the world) or does not. The reason is what
  \<^verbatim>\<open>import\<close> or \<^verbatim>\<open>require\<close> threw: an error of the loader, or whatever the module threw
  while it was evaluated.
\<close>

datatype load_result = LoadRejected error | Loaded bool

text \<open>
  \<^verbatim>\<open>
  .then(({ socks }) => {
    this.socks = socks;
    this.socks.enterBoots(this);
    this.isReady = true;
    resolve(this);
  })\<close>
\<close>

definition load_then :: "env \<Rightarrow> bool \<Rightarrow> world \<Rightarrow> outcome" where
  "load_then env exports_socks w =
     (if exports_socks then
        and_then (Socks_enterBoots env (upd_boots (\<lambda>b. b\<lparr>wb_socks := Some TheSocks\<rparr>) w))
          (\<lambda>w'. Returns (resolve (upd_boots (\<lambda>b. b\<lparr>wb_isReady := True\<rparr>) w')))
      else
        Throws (TypeError ''Cannot read properties of undefined (reading enterBoots)'')
          (upd_boots (\<lambda>b. b\<lparr>wb_socks := None\<rparr>) w))"

text \<open>
  \<^verbatim>\<open>
  .catch((error) => {
    console.log('Failed to import socks file, creating mock socks:', error.message);
    this.socks = {
      enterBoots: (boots) => { this.boots = boots; },
      onMessageLocal: ...,
      terminate: () => {}
    };
    this.socks.enterBoots(this);
    this.isReady = true;
    resolve(this);
  })\<close>
  It handles a rejected load and an exception of the first handler alike, and reads
  \<^verbatim>\<open>error.message\<close> before anything else.
\<close>

definition no_message :: "error \<Rightarrow> error" where
  "no_message error =
     (if error = Thrown JNull then TypeError ''Cannot read properties of null (reading message)''
      else TypeError ''Cannot read properties of undefined (reading message)'')"

definition load_catch :: "error \<Rightarrow> world \<Rightarrow> outcome" where
  "load_catch error w =
     (if has_message error then
        Returns (resolve (upd_boots (\<lambda>b. b\<lparr>wb_socks := Some MockSocks, wb_boots := Some TheBoots,
                                          wb_isReady := True\<rparr>) w))
      else Throws (no_message error) w)"

text \<open>
  The settling of the load runs the handlers. An exception of the second handler rejects
  the promise that \<^verbatim>\<open>.catch\<close> returned, which nothing observes: the world stays as
  the handler left it.
\<close>

definition loadSocksFile_settled :: "env \<Rightarrow> load_result \<Rightarrow> world \<Rightarrow> world" where
  "loadSocksFile_settled env r w =
     (if \<not> loadPending w then w
      else
        world_of
          (case r of
             LoadRejected e \<Rightarrow> load_catch e (w\<lparr>loadPending := False\<rparr>)
           | Loaded exports_socks \<Rightarrow>
               (case load_then env exports_socks (w\<lparr>loadPending := False\<rparr>) of
                  Returns w' \<Rightarrow> Returns w'
                | Throws e w' \<Rightarrow> load_catch e w')))"

section \<open>Messages from the worker\<close>

text \<open>
  How the worker classes of the repository's test utilities hand a message to the
  Controller. \<^verbatim>\<open>MockWorker\<close> calls the handler in its \<^verbatim>\<open>onmessage\<close> property:
  \<^verbatim>\<open>if (this.onmessage) { this.onmessage({ data: 'socks loaded' }); }\<close>
  \<^verbatim>\<open>MockNodeWorker\<close>, which has \<^verbatim>\<open>on\<close>, calls the registered listeners in order:
  \<^verbatim>\<open>callbacks.forEach(callback => callback(data))\<close>
\<close>

fun forEach_listener :: "callback list \<Rightarrow> jsval \<Rightarrow> world \<Rightarrow> outcome" where
  "forEach_listener [] m w = Returns w"
| "forEach_listener (cb # cbs) m w = and_then (invoke cb [m] w) (forEach_listener cbs m)"

definition worker_emit :: "jsval \<Rightarrow> world \<Rightarrow> outcome" where
  "worker_emit m w =
     (case wb_worker (the_boots w) of
        None \<Rightarrow> Returns w
      | Some h \<Rightarrow>
          if has_on h then forEach_listener (listeners h) m w
          else (case onmessage h of None \<Rightarrow> Returns w | Some cb \<Rightarrow> invoke cb [m] w))"

section \<open>Calls and scripts\<close>

text \<open>The operations of a Peer object, as a caller may invoke them one after another.\<close>

datatype socks_call =
    Ready
  | ProcessReadyMessages
  | EnterBoots
  | PostMessage jsval jsval "jsval list"
  | OnMessage callback
  | OnMessageLocal jsval jsval "jsval list"
  | Terminate
  | OnTerminate callback

fun socks_exec :: "env \<Rightarrow> socks_call \<Rightarrow> world \<Rightarrow> outcome" where
  "socks_exec env Ready w = Socks_ready env w"
| "socks_exec env ProcessReadyMessages w = processReadyMessages env w"
| "socks_exec env EnterBoots w = Socks_enterBoots env w"
| "socks_exec env (PostMessage d og tr) w = Socks_postMessage env d og tr w"
| "socks_exec env (OnMessage cb) w = Socks_onMessage env cb w"
| "socks_exec env (OnMessageLocal d og tr) w = Socks_onMessageLocal d og tr w"
| "socks_exec env Terminate w = Socks_terminate w"
| "socks_exec env (OnTerminate cb) w = Socks_onTerminate cb w"

text \<open>
  A sequence of such calls; a call that throws leaves its mutations behind and the next
  call is made all the same.
\<close>

fun socks_run :: "env \<Rightarrow> socks_call list \<Rightarrow> world \<Rightarrow> world" where
  "socks_run env [] w = w"
| "socks_run env (c # cs) w = socks_run env cs (world_of (socks_exec env c w))"

text \<open>The events that are operations on the host reference \<^verbatim>\<open>self\<close>.\<close>

fun host_event :: "event \<Rightarrow> bool" where
  "host_event (SelfPostMessage args) = True"
| "host_event SelfTerminate = True"
| "host_event ev = False"

text \<open>The sentinel leaving the Peer, across the bridge or through the host.\<close>

fun sends_sentinel :: "event \<Rightarrow> bool" where
  "sends_sentinel (BootsOnMessageLocal args) = (args = [socks_loaded])"
| "sends_sentinel (SelfPostMessage args) = (take 1 args = [socks_loaded])"
| "sends_sentinel ev = False"

text \<open>The steps of a whole scenario: both objects, and the settling of the module load.\<close>

datatype step =
    NewWorkBoots "string option" factory
  | NewSocks "handle option"
  | Boots_onMessage callback
  | Boots_postMessage jsval jsval "jsval list"
  | Boots_terminate
  | Peer socks_call
  | LoadSettles load_result
  | WorkerEmits jsval

fun step_exec :: "env \<Rightarrow> step \<Rightarrow> world \<Rightarrow> outcome" where
  "step_exec env (NewWorkBoots f instantiateWorker) w = WorkBoots_constructor env f instantiateWorker w"
| "step_exec env (NewSocks self) w = Returns (w\<lparr>the_socks := Socks_constructor self\<rparr>)"
| "step_exec env (Boots_onMessage cb) w = WorkBoots_onMessage env cb w"
| "step_exec env (Boots_postMessage d og tr) w = WorkBoots_postMessage env d og tr w"
| "step_exec env Boots_terminate w = WorkBoots_terminate env w"
| "step_exec env (Peer c) w = socks_exec env c w"
| "step_exec env (LoadSettles r) w = Returns (loadSocksFile_settled env r w)"
| "step_exec env (WorkerEmits m) w = worker_emit m w"

text \<open>A script stops at the first step that throws.\<close>

fun script :: "env \<Rightarrow> step list \<Rightarrow> world \<Rightarrow> outcome" where
  "script env [] w = Returns w"
| "script env (s # ss) w = and_then (step_exec env s w) (script env ss)"

text \<open>
  The world every script starts from: \<^verbatim>\<open>new WorkBoots({})\<close> and \<^verbatim>\<open>new Socks()\<close>, two
  objects with nothing registered. The constructors of a script replace them.
\<close>

definition start :: world where
  "start = \<lparr>the_boots = no_socksFile, the_socks = Socks_constructor None, trace = [],
            loadPending = False\<rparr>"

text \<open>The jest environment of the repository (\<^verbatim>\<open>testEnvironment: 'node'\<close>).\<close>

definition node_env :: env where
  "node_env = \<lparr>isBrowser = False, isNode = True, hasWorker = False\<rparr>"

definition browser_env :: env where
  "browser_env = \<lparr>isBrowser = True, isNode = False, hasWorker = True\<rparr>"

text \<open>A host or worker object with the three primitives and no handler set.\<close>

definition plain_handle :: handle where
  "plain_handle = \<lparr>has_postMessage = True, has_on = False, has_terminate = True,
                   onmessage = None, listeners = []\<rparr>"

text \<open>
  The fallback set-up of the repository's test \<^verbatim>\<open>work-boots.test.socks.js\<close>: the factory
  throws, the module builds its Peer without a host, registers its handler and calls
  \<^verbatim>\<open>ready()\<close>, then the load is fulfilled.
\<close>

definition failing_factory :: factory where
  "failing_factory = FactoryThrows (Error ''unsupported'')"

definition bridge_setup :: "step list" where
  "bridge_setup =
     [NewWorkBoots (Some ''./work-boots.test.socks.js'') failing_factory,
      NewSocks None,
      Peer (OnMessage (AppCallback 1)),
      Peer Ready,
      LoadSettles (Loaded True)]"

text \<open>
  A sequence of steps in which a step that throws leaves its mutations behind and the
  next step is made all the same (the caller caught the exception, or the steps belong
  to different event-loop tasks).
\<close>

fun run :: "env \<Rightarrow> step list \<Rightarrow> world \<Rightarrow> world" where
  "run env [] w = w"
| "run env (s # ss) w = run env ss (world_of (step_exec env s w))"

text \<open>
  The steps that can happen between the constructor and the settling of its module load:
  anything but building another Controller or the settling itself.
\<close>

fun while_loading :: "step \<Rightarrow> bool" where
  "while_loading (NewWorkBoots f instantiateWorker) = False"
| "while_loading (LoadSettles r) = False"
| "while_loading s = True"

text \<open>The Controller as the constructor leaves it when the factory threw.\<close>

definition awaiting_load :: workboots where
  "awaiting_load =
     \<lparr>wb_readyPromise = Pending, wb_supportsWorker = False, wb_receivedBeforeReady = Some [],
      wb_isReady = False, wb_worker = None, wb_socks = None,
      wb_onMessageCallback = Some VelcroAndLaces, wb_boots = None\<rparr>"

text \<open>The load is pending and the readiness promise has not been rejected.\<close>

definition awaiting :: "world \<Rightarrow> bool" where
  "awaiting w \<longleftrightarrow>
     loadPending w \<and>
     (wb_readyPromise (the_boots w) = Pending \<or> wb_readyPromise (the_boots w) = Resolved)"

text \<open>
  What a delivery by the Peer (\<^verbatim>\<open>postMessage\<close>, \<^verbatim>\<open>ready\<close>, the drain of the queue) leaves
  alone: the references and callbacks of both objects; the trace only grows, without
  host events when there is no host; the promise can only go from pending to resolved.
\<close>

definition kept :: "world \<Rightarrow> world \<Rightarrow> bool" where
  "kept w w' \<longleftrightarrow>
     sk_self (the_socks w') = sk_self (the_socks w) \<and>
     sk_boots (the_socks w') = sk_boots (the_socks w) \<and>
     sk_onMessageCallback (the_socks w') = sk_onMessageCallback (the_socks w) \<and>
     sk_terminateCallback (the_socks w') = sk_terminateCallback (the_socks w) \<and>
     (sk_sentReadyMessage (the_socks w) \<longrightarrow> sk_sentReadyMessage (the_socks w')) \<and>
     (sk_isReady (the_socks w) \<longrightarrow> sk_isReady (the_socks w')) \<and>
     wb_socks (the_boots w') = wb_socks (the_boots w) \<and>
     wb_worker (the_boots w') = wb_worker (the_boots w) \<and>
     wb_supportsWorker (the_boots w') = wb_supportsWorker (the_boots w) \<and>
     wb_isReady (the_boots w') = wb_isReady (the_boots w) \<and>
     wb_onMessageCallback (the_boots w') = wb_onMessageCallback (the_boots w) \<and>
     wb_boots (the_boots w') = wb_boots (the_boots w) \<and>
     (wb_receivedBeforeReady (the_boots w) \<noteq> None \<longrightarrow>
        wb_receivedBeforeReady (the_boots w') \<noteq> None) \<and>
     loadPending w' = loadPending w \<and>
     (wb_readyPromise (the_boots w') = wb_readyPromise (the_boots w) \<or>
      wb_readyPromise (the_boots w') = Resolved \<and> wb_readyPromise (the_boots w) = Pending)"

definition grows :: "world \<Rightarrow> world \<Rightarrow> bool" where
  "grows w w' \<longleftrightarrow>
     (\<exists>evs. trace w' = trace w @ evs \<and>
            (sk_self (the_socks w) = None \<longrightarrow> \<not> list_ex host_event evs))"

definition frame :: "world \<Rightarrow> world \<Rightarrow> bool" where
  "frame w w' \<longleftrightarrow> kept w w' \<and> grows w w'"

text \<open>
  The Controller can take a delivery over the bridge: it has a callback that returns,
  and if that is the internal listener, the listener's queue exists (it does on every
  Controller built with a descriptor).
\<close>

definition boots_listening :: "world \<Rightarrow> bool" where
  "boots_listening w \<longleftrightarrow>
     (case wb_onMessageCallback (the_boots w) of
        None \<Rightarrow> False
      | Some VelcroAndLaces \<Rightarrow> wb_receivedBeforeReady (the_boots w) \<noteq> None
      | Some (AppCallback n) \<Rightarrow> True
      | Some (Throwing n v) \<Rightarrow> False)"

text \<open>
  The Peer delivers over the bridge: it is ready, has no usable host, is bound to the
  Controller, and the Controller is listening.
\<close>

definition bridge_inv :: "env \<Rightarrow> world \<Rightarrow> bool" where
  "bridge_inv env w \<longleftrightarrow>
     sk_isReady (the_socks w) \<and> \<not> isWorkerSupported env (the_socks w) \<and>
     sk_boots (the_socks w) \<noteq> None \<and> boots_listening w"

text \<open>A browser without the Worker facility, and its window with a message handler set.\<close>

definition old_browser_env :: env where
  "old_browser_env = \<lparr>isBrowser = True, isNode = False, hasWorker = False\<rparr>"

definition window_host :: handle where
  "window_host = plain_handle\<lparr>onmessage := Some (AppCallback 7)\<rparr>"

text \<open>
  The ready/adopt race: the factory threw, and while the load is pending the module has
  built its Peer on the window, posted a message and called \<^verbatim>\<open>ready()\<close>.
\<close>

definition racing_world :: world where
  "racing_world =
     world_of (script old_browser_env
       [NewWorkBoots (Some ''./socks.js'') failing_factory,
        NewSocks (Some window_host),
        Peer (PostMessage (JObj [(''n'', JNum 1)]) JUndefined []),
        Peer Ready] start)"

text \<open>The world after the constructor, when the factory threw: the load is pending.\<close>

definition fallback_world :: "world \<Rightarrow> world" where
  "fallback_world w = w\<lparr>the_boots := awaiting_load, loadPending := True\<rparr>"

text \<open>
  What the application and the module do in the witness of the fallback, while the load
  is pending.
\<close>

definition fallback_steps :: "step list" where
  "fallback_steps =
     [Boots_onMessage (AppCallback 0),
      NewSocks None,
      Peer (OnMessage (AppCallback 1)),
      Peer (PostMessage (JObj [(''n'', JNum 1)]) JUndefined []),
      Peer Ready,
      Boots_postMessage (JObj [(''early'', JBool True)]) JUndefined []]"


text \<open>The Controller as the constructor leaves it when the factory returned the handle \<open>h\<close>.\<close>

definition resolved_remote :: "handle \<Rightarrow> workboots" where
  "resolved_remote h =
     \<lparr>wb_readyPromise = Resolved, wb_supportsWorker = True, wb_receivedBeforeReady = Some [],
      wb_isReady = True, wb_worker = Some h, wb_socks = None,
      wb_onMessageCallback = Some VelcroAndLaces, wb_boots = None\<rparr>"

text \<open>What the host of a Peer in Node receives for a tuple: \<^verbatim>\<open>self.postMessage(data, transfer)\<close>.\<close>

definition node_post :: "jsval \<times> jsval \<times> jsval list \<Rightarrow> event" where
  "node_post a = SelfPostMessage [fst a, JArr (snd (snd a))]"

text \<open>The Peer runs in Node on a host that has \<^verbatim>\<open>postMessage\<close>.\<close>

definition node_host :: "env \<Rightarrow> world \<Rightarrow> bool" where
  "node_host env w \<longleftrightarrow>
     \<not> isBrowser env \<and> isNode env \<and>
     (case sk_self (the_socks w) of None \<Rightarrow> False | Some h \<Rightarrow> has_postMessage h)"

text \<open>The payload of the repository's round-trip test.\<close>

definition elite :: jsval where
  "elite = JObj [(''elite'', JNum 313370)]"

text \<open>
  The test \<^verbatim>\<open>should not use socks file if the worker is supported\<close>: after readiness
  the application registers its callback and posts the payload; the Peer's handler
  replies with \<^verbatim>\<open>socks.postMessage({ elite: data.elite })\<close>.
\<close>

definition test_round_trip :: "step list" where
  "test_round_trip =
     bridge_setup @
     [Boots_onMessage (AppCallback 0),
      Boots_postMessage elite (JStr ''localhost:8080'') [],
      Peer (PostMessage elite JUndefined [])]"

text \<open>
  The application registers its callback right after the constructor, as the tests of the
  repository do, before the module load settles.
\<close>

definition early_listener :: "step list" where
  "early_listener =
     [NewWorkBoots (Some ''./work-boots.test.socks.js'') failing_factory,
      Boots_onMessage (AppCallback 0),
      NewSocks None,
      Peer (OnMessage (AppCallback 1)),
      Peer Ready,
      LoadSettles (Loaded True)]"

text \<open>A Peer on a host in Node: three posts before \<^verbatim>\<open>ready()\<close>, the second one \<^verbatim>\<open>null\<close>.\<close>

definition queued_null :: "step list" where
  "queued_null =
     [NewSocks (Some plain_handle),
      Peer (PostMessage (envelope (JNum 1)) JUndefined []),
      Peer (PostMessage JNull JUndefined []),
      Peer (PostMessage (envelope (JNum 2)) JUndefined []),
      Peer Ready]"

text \<open>
  The test \<^verbatim>\<open>should queue messages sent before ready\<close>: a Peer on a host, three posts,
  then \<^verbatim>\<open>ready()\<close>.
\<close>

definition queued_remote :: "step list" where
  "queued_remote =
     [NewSocks (Some plain_handle),
      Peer (PostMessage (envelope (JNum 1)) JUndefined []),
      Peer (PostMessage (envelope (JNum 2)) JUndefined []),
      Peer (PostMessage (envelope (JNum 3)) JUndefined []),
      Peer Ready]"

text \<open>
  The remote set-up of the tests: the factory returns a worker, the application registers
  its callback, and the worker then reports \<^verbatim>\<open>{ data: 'socks loaded' }\<close>.
\<close>

definition remote_listener :: "step list" where
  "remote_listener =
     [NewWorkBoots (Some ''./work-boots.test.socks.js'') (FactoryReturns (Some plain_handle)),
      Boots_onMessage (AppCallback 0),
      WorkerEmits (envelope socks_loaded)]"




text \<open>
  The second handler of the module load, if it runs, can read the message of what it
  caught: the reason of the rejection, or what the first handler threw.
\<close>

definition catch_reads_message :: "env \<Rightarrow> load_result \<Rightarrow> world \<Rightarrow> bool" where
  "catch_reads_message env r w \<longleftrightarrow>
     (case r of
        LoadRejected e \<Rightarrow> has_message e
      | Loaded exports_socks \<Rightarrow>
          (case load_then env exports_socks (w\<lparr>loadPending := False\<rparr>) of
             Returns w' \<Rightarrow> True
           | Throws e w' \<Rightarrow> has_message e))"

text \<open>
  The factory throws and the module load is rejected with \<^verbatim>\<open>undefined\<close>, as it is for a
  module whose evaluation ends in \<^verbatim>\<open>throw undefined\<close>.
\<close>

definition rejected_undefined :: "step list" where
  "rejected_undefined =
     [NewWorkBoots (Some ''./socks.js'') failing_factory,
      LoadSettles (LoadRejected (Thrown JUndefined))]"

text \<open>
  A host in Node with the emitter interface (\<^verbatim>\<open>on\<close>), as \<^verbatim>\<open>parentPort\<close>, a
  \<^verbatim>\<open>MessagePort\<close> or the \<^verbatim>\<open>MockNodeWorker\<close> of the test utilities have it.
\<close>

definition emitter_host :: handle where
  "emitter_host = plain_handle\<lparr>has_on := True\<rparr>"

text \<open>
  The module builds its Peer on such a host, registers its handler and calls \<^verbatim>\<open>ready()\<close>.
\<close>

definition emitter_peer :: "step list" where
  "emitter_peer =
     [NewWorkBoots (Some ''./socks.js'') failing_factory,
      NewSocks (Some emitter_host),
      Peer (OnMessage (AppCallback 1)),
      Peer Ready]"

text \<open>The load is then fulfilled and the Controller adopts the Peer.\<close>

definition emitter_adoption :: "step list" where
  "emitter_adoption = emitter_peer @ [LoadSettles (Loaded True)]"

section \<open>What a delivery leaves alone\<close>

lemma kept_trans:
  assumes a: "kept w w'" and b: "kept w' w''"
  shows "kept w w''"
proof -
  have p: "wb_readyPromise (the_boots w'') = wb_readyPromise (the_boots w) \<or>
      wb_readyPromise (the_boots w'') = Resolved \<and> wb_readyPromise (the_boots w) = Pending"
  proof -
    from a have "wb_readyPromise (the_boots w') = wb_readyPromise (the_boots w) \<or>
      wb_readyPromise (the_boots w') = Resolved \<and> wb_readyPromise (the_boots w) = Pending"
      by (simp add: kept_def)
    moreover from b have "wb_readyPromise (the_boots w'') = wb_readyPromise (the_boots w') \<or>
      wb_readyPromise (the_boots w'') = Resolved \<and> wb_readyPromise (the_boots w') = Pending"
      by (simp add: kept_def)
    ultimately show ?thesis by (elim disjE conjE) simp_all
  qed
  from a b have
    "sk_self (the_socks w'') = sk_self (the_socks w)"
    "sk_boots (the_socks w'') = sk_boots (the_socks w)"
    "sk_onMessageCallback (the_socks w'') = sk_onMessageCallback (the_socks w)"
    "sk_terminateCallback (the_socks w'') = sk_terminateCallback (the_socks w)"
    "sk_sentReadyMessage (the_socks w) \<longrightarrow> sk_sentReadyMessage (the_socks w'')"
    "sk_isReady (the_socks w) \<longrightarrow> sk_isReady (the_socks w'')"
    "wb_socks (the_boots w'') = wb_socks (the_boots w)"
    "wb_worker (the_boots w'') = wb_worker (the_boots w)"
    "wb_supportsWorker (the_boots w'') = wb_supportsWorker (the_boots w)"
    "wb_isReady (the_boots w'') = wb_isReady (the_boots w)"
    "wb_onMessageCallback (the_boots w'') = wb_onMessageCallback (the_boots w)"
    "wb_boots (the_boots w'') = wb_boots (the_boots w)"
    "wb_receivedBeforeReady (the_boots w) \<noteq> None \<longrightarrow> wb_receivedBeforeReady (the_boots w'') \<noteq> None"
    "loadPending w'' = loadPending w"
    unfolding kept_def by simp_all
  with p show ?thesis unfolding kept_def by (intro conjI)
qed



lemma grows_trans:
  assumes "grows w w'" "grows w' w''" "sk_self (the_socks w') = sk_self (the_socks w)"
  shows "grows w w''"
proof -
  from assms(1) obtain evs where
    a: "trace w' = trace w @ evs" and a': "sk_self (the_socks w) = None \<longrightarrow> \<not> list_ex host_event evs"
    unfolding grows_def by (elim exE conjE)
  from assms(2) obtain evs' where
    b: "trace w'' = trace w' @ evs'" and b': "sk_self (the_socks w') = None \<longrightarrow> \<not> list_ex host_event evs'"
    unfolding grows_def by (elim exE conjE)
  from a b have "trace w'' = trace w @ (evs @ evs')" by simp
  moreover have "sk_self (the_socks w) = None \<longrightarrow> \<not> list_ex host_event (evs @ evs')"
  proof
    assume n: "sk_self (the_socks w) = None"
    with assms(3) have "sk_self (the_socks w') = None" by simp
    with b' have "\<not> list_ex host_event evs'" by simp
    moreover from n a' have "\<not> list_ex host_event evs" by simp
    ultimately show "\<not> list_ex host_event (evs @ evs')" by simp
  qed
  ultimately have "\<exists>e. trace w'' = trace w @ e \<and> (sk_self (the_socks w) = None \<longrightarrow> \<not> list_ex host_event e)"
    by (intro exI [of _ "evs @ evs'"] conjI)
  then show ?thesis unfolding grows_def .
qed

lemma kept_self: "kept w w' \<Longrightarrow> sk_self (the_socks w') = sk_self (the_socks w)"
  by (simp add: kept_def)

lemma frame_refl: "frame w w"
  by (simp add: frame_def kept_def grows_def)

lemma frame_trans: "frame w w' \<Longrightarrow> frame w' w'' \<Longrightarrow> frame w w''"
proof -
  assume a: "frame w w'" and b: "frame w' w''"
  from a have a1: "kept w w'" and a2: "grows w w'" by (simp_all add: frame_def)
  from b have b1: "kept w' w''" and b2: "grows w' w''" by (simp_all add: frame_def)
  from kept_trans [OF a1 b1] grows_trans [OF a2 b2 kept_self [OF a1]]
  show ?thesis by (simp add: frame_def)
qed

lemma frame_and_then:
  "frame w (world_of r) \<Longrightarrow> (\<And>w'. frame w' (world_of (f w'))) \<Longrightarrow> frame w (world_of (and_then r f))"
proof (cases r)
  case (Returns w1)
  assume a: "frame w (world_of r)" and b: "\<And>w'. frame w' (world_of (f w'))"
  from a Returns have "frame w w1" by simp
  from frame_trans [OF this b [of w1]] Returns show ?thesis by simp
next
  case (Throws e w1)
  assume "frame w (world_of r)"
  with Throws show ?thesis by simp
qed

lemma frame_emit: "(sk_self (the_socks w) = None \<longrightarrow> \<not> host_event e) \<Longrightarrow> frame w (emit e w)"
  by (simp add: frame_def kept_def grows_def emit_def)

lemma frame_upd_socks:
  assumes "sk_self (f (the_socks w)) = sk_self (the_socks w)"
    "sk_boots (f (the_socks w)) = sk_boots (the_socks w)"
    "sk_onMessageCallback (f (the_socks w)) = sk_onMessageCallback (the_socks w)"
    "sk_terminateCallback (f (the_socks w)) = sk_terminateCallback (the_socks w)"
    "sk_sentReadyMessage (the_socks w) \<longrightarrow> sk_sentReadyMessage (f (the_socks w))"
    "sk_isReady (the_socks w) \<longrightarrow> sk_isReady (f (the_socks w))"
  shows "frame w (upd_socks f w)"
  using assms by (simp add: frame_def kept_def grows_def upd_socks_def)

lemma frame_resolve: "frame w (resolve w)"
  by (cases "wb_readyPromise (the_boots w)")
     (simp_all add: frame_def kept_def grows_def resolve_def upd_boots_def)

lemma frame_push:
  "frame w (upd_boots (\<lambda>b. b\<lparr>wb_receivedBeforeReady := Some q\<rparr>) w)"
  by (simp add: frame_def kept_def grows_def upd_boots_def)

lemma frame_velcroAndLaces: "frame w (world_of (velcroAndLaces args w))"
  by (cases "wb_receivedBeforeReady (the_boots w)")
     (simp_all add: velcroAndLaces_def Let_def frame_resolve frame_refl frame_push)

lemma frame_invoke: "frame w (world_of (invoke cb args w))"
  by (cases cb) (simp_all add: frame_velcroAndLaces frame_emit)

lemma frame_WorkBoots_onMessageLocal: "frame w (world_of (WorkBoots_onMessageLocal d og tr w))"
  by (cases "wb_onMessageCallback (the_boots w)")
     (simp_all add: WorkBoots_onMessageLocal_def frame_invoke frame_refl)

lemma frame_Socks_onMessageLocal: "frame w (world_of (Socks_onMessageLocal d og tr w))"
  by (cases "sk_onMessageCallback (the_socks w)")
     (simp_all add: Socks_onMessageLocal_def frame_invoke frame_refl)

lemma frame_boots_onMessageLocal: "frame w (world_of (boots_onMessageLocal d og tr args w))"
proof (cases "sk_boots (the_socks w)")
  case None
  then show ?thesis by (simp add: boots_onMessageLocal_def frame_refl)
next
  case (Some r)
  have "frame w (emit (BootsOnMessageLocal args) w)" by (simp add: frame_emit)
  from frame_trans [OF this frame_WorkBoots_onMessageLocal] Some show ?thesis
    by (cases r) (simp add: boots_onMessageLocal_def)
qed

lemma frame_self_postMessage: "frame w (world_of (self_postMessage args w))"
  by (cases "sk_self (the_socks w)")
     (simp_all add: self_postMessage_def frame_refl frame_emit)

lemma frame_Socks_postMessage: "frame w (world_of (Socks_postMessage env d og tr w))"
proof (cases "sk_isReady (the_socks w)")
  case False
  then show ?thesis by (simp add: Socks_postMessage_def frame_upd_socks)
next
  case True
  then show ?thesis
    by (cases "Socks_message d")
       (simp_all add: Socks_postMessage_def frame_refl frame_self_postMessage
          frame_boots_onMessageLocal)
qed

lemma frame_forEach_postMessage: "frame w (world_of (forEach_postMessage env q w))"
proof (induction q arbitrary: w)
  case Nil
  show ?case by (simp add: frame_refl)
next
  case (Cons a q)
  show ?case
    by (cases a) (simp add: frame_and_then frame_Socks_postMessage Cons.IH)
qed

lemma frame_processReadyMessages: "frame w (world_of (processReadyMessages env w))"
proof (cases "sk_sentReadyMessage (the_socks w)")
  case False
  then show ?thesis by (simp add: processReadyMessages_def frame_refl)
next
  case True
  have "frame w (world_of (and_then (forEach_postMessage env (sk_postsBeforeReady (the_socks w)) w)
          (\<lambda>w'. Returns (upd_socks (\<lambda>s. s\<lparr>sk_postsBeforeReady := []\<rparr>) w'))))"
    by (rule frame_and_then) (simp_all add: frame_forEach_postMessage frame_upd_socks)
  with True show ?thesis by (simp add: processReadyMessages_def)
qed

lemma frame_sent: "frame w (world_of (Returns (upd_socks (\<lambda>s. s\<lparr>sk_sentReadyMessage := True\<rparr>) w)))"
  by (simp add: frame_upd_socks)

lemma frame_Socks_ready: "frame w (world_of (Socks_ready env w))"
proof -
  let ?first = "if isWorkerSupported env (the_socks w) then
          and_then (Socks_postMessage env socks_loaded JUndefined [] w)
            (\<lambda>w'. Returns (upd_socks (\<lambda>s. s\<lparr>sk_sentReadyMessage := True\<rparr>) w'))
        else if sk_boots (the_socks w) \<noteq> None then
          and_then (boots_onMessageLocal socks_loaded JUndefined [] [socks_loaded] w)
            (\<lambda>w'. Returns (upd_socks (\<lambda>s. s\<lparr>sk_sentReadyMessage := True\<rparr>) w'))
        else Returns w"
  have s1: "frame w (world_of (and_then (Socks_postMessage env socks_loaded JUndefined [] w)
            (\<lambda>w'. Returns (upd_socks (\<lambda>s. s\<lparr>sk_sentReadyMessage := True\<rparr>) w'))))"
    by (rule frame_and_then) (simp_all add: frame_Socks_postMessage frame_upd_socks)
  have s2: "frame w (world_of (and_then (boots_onMessageLocal socks_loaded JUndefined [] [socks_loaded] w)
            (\<lambda>w'. Returns (upd_socks (\<lambda>s. s\<lparr>sk_sentReadyMessage := True\<rparr>) w'))))"
    by (rule frame_and_then) (simp_all add: frame_boots_onMessageLocal frame_upd_socks)
  have a: "frame w (world_of ?first)"
    by (simp add: frame_refl s1 s2)
  have b: "frame w' (world_of (processReadyMessages env (upd_socks (\<lambda>s. s\<lparr>sk_isReady := True\<rparr>) w')))"
    for w'
  proof -
    have "frame w' (upd_socks (\<lambda>s. s\<lparr>sk_isReady := True\<rparr>) w')" by (simp add: frame_upd_socks)
    from frame_trans [OF this frame_processReadyMessages] show ?thesis .
  qed
  from frame_and_then [of w ?first, OF a b] show ?thesis by (simp add: Socks_ready_def)
qed

lemma frame_Socks_terminate: "frame w (world_of (Socks_terminate w))"
proof -
  let ?first = "case sk_terminateCallback (the_socks w) of
                  None \<Rightarrow> Returns w
                | Some cb \<Rightarrow> invoke cb [] w"
  have a: "frame w (world_of ?first)"
    by (cases "sk_terminateCallback (the_socks w)") (simp_all add: frame_refl frame_invoke)
  have b: "frame w1 (world_of (case sk_self (the_socks w1) of
           None \<Rightarrow> Returns w1
         | Some h \<Rightarrow> if has_terminate h then Returns (emit SelfTerminate w1) else Returns w1))"
    for w1
    by (cases "sk_self (the_socks w1)") (simp_all add: frame_refl frame_emit)
  from frame_and_then [of w ?first, OF a b] show ?thesis by (simp add: Socks_terminate_def)
qed

lemma and_then_Returns:
  "and_then r f = Returns w' \<longleftrightarrow> (\<exists>w''. r = Returns w'' \<and> f w'' = Returns w')"
  by (cases r) simp_all

lemma frame_trace: "frame w w' \<Longrightarrow> \<exists>evs. trace w' = trace w @ evs"
  by (auto simp: frame_def grows_def)

lemma frame_host:
  assumes "frame w w'" "sk_self (the_socks w) = None"
  shows "filter host_event (trace w') = filter host_event (trace w)"
proof -
  from assms obtain evs where "trace w' = trace w @ evs" "\<not> list_ex host_event evs"
    by (auto simp: frame_def grows_def)
  then show ?thesis by (simp add: list_ex_iff filter_empty_conv)
qed

lemma frame_kept: "frame w w' \<Longrightarrow> kept w w'"
  by (simp add: frame_def)

section \<open>Adoption\<close>

lemma enterBoots_cases:
  obtains w2 where
    "frame (upd_socks (\<lambda>s. s\<lparr>sk_boots := Some TheBoots\<rparr>) w) w2"
    "(\<exists>e. Socks_enterBoots env w = Throws e w2) \<or>
     Socks_enterBoots env w = Returns (upd_socks (\<lambda>s. (capture_onmessage s)\<lparr>sk_self := None\<rparr>) w2)"
proof -
  let ?w1 = "upd_socks (\<lambda>s. s\<lparr>sk_boots := Some TheBoots\<rparr>) w"
  let ?r = "if sk_isReady (the_socks ?w1) \<and> \<not> sk_sentReadyMessage (the_socks ?w1)
            then Socks_ready env ?w1 else Returns ?w1"
  have fr: "frame ?w1 (world_of ?r)"
    by (simp add: frame_Socks_ready frame_refl)
  have eb: "Socks_enterBoots env w =
      and_then ?r (\<lambda>w2. Returns (upd_socks (\<lambda>s. (capture_onmessage s)\<lparr>sk_self := None\<rparr>) w2))"
    by (simp add: Socks_enterBoots_def Let_def)
  show thesis
  proof (cases ?r)
    case (Returns w2)
    with fr have "frame ?w1 w2" by simp
    moreover from Returns eb have
      "Socks_enterBoots env w = Returns (upd_socks (\<lambda>s. (capture_onmessage s)\<lparr>sk_self := None\<rparr>) w2)"
      by simp
    ultimately show thesis using that [of w2] by simp
  next
    case (Throws e w2)
    with fr have "frame ?w1 w2" by simp
    moreover from Throws eb have "\<exists>e. Socks_enterBoots env w = Throws e w2" by simp
    ultimately show thesis using that [of w2] by simp
  qed
qed

lemma ready_sends_sentinel:
  assumes "Socks_ready env w = Returns w'"
    and "sk_isReady (the_socks w)"
    and "sk_boots (the_socks w) \<noteq> None"
  shows "sk_sentReadyMessage (the_socks w') \<and>
         (\<exists>evs. trace w' = trace w @ evs \<and> list_ex sends_sentinel evs)"
proof -
  let ?sent = "\<lambda>w. upd_socks (\<lambda>s. s\<lparr>sk_sentReadyMessage := True\<rparr>) w"
  let ?rdy = "\<lambda>w. upd_socks (\<lambda>s. s\<lparr>sk_isReady := True\<rparr>) w"
  have "\<exists>w1 evs. trace w1 = trace w @ evs \<and> list_ex sends_sentinel evs
          \<and> processReadyMessages env (?rdy (?sent w1)) = Returns w'"
  proof (cases "isWorkerSupported env (the_socks w)")
    case True
    then obtain h where h: "sk_self (the_socks w) = Some h"
      by (auto simp: isWorkerSupported_def split: if_splits)
    from assms(1) True obtain w1 where
      p: "Socks_postMessage env socks_loaded JUndefined [] w = Returns w1" and
      q: "processReadyMessages env (?rdy (?sent w1)) = Returns w'"
      by (auto simp: Socks_ready_def and_then_Returns)
    from p True assms(2) h have "\<exists>ev. trace w1 = trace w @ [ev] \<and> sends_sentinel ev"
      by (auto simp: Socks_postMessage_def Socks_message_def socks_loaded_def envelope_def
            self_postMessage_def emit_def isWorkerSupported_def split: if_splits)
    then obtain ev where "trace w1 = trace w @ [ev]" "list_ex sends_sentinel [ev]" by auto
    with q show ?thesis by (intro exI [of _ w1] exI [of _ "[ev]"] conjI)
  next
    case False
    from assms(1,3) False obtain w1 where
      p: "boots_onMessageLocal socks_loaded JUndefined [] [socks_loaded] w = Returns w1" and
      q: "processReadyMessages env (?rdy (?sent w1)) = Returns w'"
      by (auto simp: Socks_ready_def and_then_Returns)
    let ?w0 = "emit (BootsOnMessageLocal [socks_loaded]) w"
    from p assms(3) have p': "WorkBoots_onMessageLocal socks_loaded JUndefined [] ?w0 = Returns w1"
      by (auto simp: boots_onMessageLocal_def split: option.splits boots_ref.splits)
    from frame_WorkBoots_onMessageLocal [of ?w0 socks_loaded JUndefined "[]"] p'
    have "frame ?w0 w1" by simp
    then obtain evs where "trace w1 = trace ?w0 @ evs" by (auto dest: frame_trace)
    then have "trace w1 = trace w @ (BootsOnMessageLocal [socks_loaded] # evs)"
      and "list_ex sends_sentinel (BootsOnMessageLocal [socks_loaded] # evs)"
      by (simp_all add: emit_def)
    with q show ?thesis
      by (intro exI [of _ w1] exI [of _ "BootsOnMessageLocal [socks_loaded] # evs"] conjI)
  qed
  then obtain w1 evs where t: "trace w1 = trace w @ evs" and s: "list_ex sends_sentinel evs"
    and q: "processReadyMessages env (?rdy (?sent w1)) = Returns w'" by (elim exE conjE)
  from frame_processReadyMessages [of "?rdy (?sent w1)" env] q
  have f: "frame (?rdy (?sent w1)) w'" by simp
  from frame_kept [OF f] have a: "sk_sentReadyMessage (the_socks w')"
    by (simp add: kept_def upd_socks_def)
  from f obtain evs' where "trace w' = trace (?rdy (?sent w1)) @ evs'"
    by (auto dest: frame_trace)
  with t have b: "trace w' = trace w @ (evs @ evs')" by (simp add: upd_socks_def)
  from s have c: "list_ex sends_sentinel (evs @ evs')" by simp
  from b c have "\<exists>evs. trace w' = trace w @ evs \<and> list_ex sends_sentinel evs"
    by (intro exI [of _ "evs @ evs'"] conjI)
  with a show ?thesis by simp
qed

lemma self_None_frame:
  assumes "frame w w'" "sk_self (the_socks w) = None"
  shows "sk_self (the_socks w') = None \<and>
         filter host_event (trace w') = filter host_event (trace w)"
  using frame_kept [OF assms(1)] frame_host [OF assms] assms(2) by (simp add: kept_def)

lemma self_None_exec:
  assumes "sk_self (the_socks w) = None"
  shows "sk_self (the_socks (world_of (socks_exec env c w))) = None \<and>
         filter host_event (trace (world_of (socks_exec env c w))) = filter host_event (trace w)"
proof (cases c)
  case Ready
  from self_None_frame [OF frame_Socks_ready assms] show ?thesis
    unfolding Ready by simp
next
  case ProcessReadyMessages
  from self_None_frame [OF frame_processReadyMessages assms] show ?thesis
    unfolding ProcessReadyMessages by simp
next
  case EnterBoots
  let ?w1 = "upd_socks (\<lambda>s. s\<lparr>sk_boots := Some TheBoots\<rparr>) w"
  obtain w2 where f: "frame ?w1 w2" and
    d: "(\<exists>e. Socks_enterBoots env w = Throws e w2) \<or>
        Socks_enterBoots env w = Returns (upd_socks (\<lambda>s. (capture_onmessage s)\<lparr>sk_self := None\<rparr>) w2)"
    by (rule enterBoots_cases)
  from assms have n: "sk_self (the_socks ?w1) = None" by (simp add: upd_socks_def)
  from self_None_frame [OF f n] have
    a: "sk_self (the_socks w2) = None" and
    b: "filter host_event (trace w2) = filter host_event (trace w)"
    by (simp_all add: upd_socks_def)
  from d show ?thesis
  proof
    assume "\<exists>e. Socks_enterBoots env w = Throws e w2"
    then obtain e where "Socks_enterBoots env w = Throws e w2" ..
    with a b show ?thesis unfolding EnterBoots by simp
  next
    assume "Socks_enterBoots env w = Returns (upd_socks (\<lambda>s. (capture_onmessage s)\<lparr>sk_self := None\<rparr>) w2)"
    with a b show ?thesis unfolding EnterBoots by (simp add: upd_socks_def)
  qed
next
  case (PostMessage d og tr)
  from self_None_frame [OF frame_Socks_postMessage assms] show ?thesis
    unfolding PostMessage by simp
next
  case (OnMessage cb)
  with assms show ?thesis
    by (simp add: Socks_onMessage_def isWorkerSupported_def upd_socks_def)
next
  case (OnMessageLocal d og tr)
  from self_None_frame [OF frame_Socks_onMessageLocal assms] show ?thesis
    unfolding OnMessageLocal by simp
next
  case Terminate
  from self_None_frame [OF frame_Socks_terminate assms] show ?thesis
    unfolding Terminate by simp
next
  case (OnTerminate cb)
  with assms show ?thesis
    by (simp add: Socks_onTerminate_def upd_socks_def)
qed

lemma self_None_run:
  "sk_self (the_socks w) = None \<Longrightarrow>
     sk_self (the_socks (socks_run env cs w)) = None \<and>
     filter host_event (trace (socks_run env cs w)) = filter host_event (trace w)"
proof (induction cs arbitrary: w)
  case Nil
  then show ?case by simp
next
  case (Cons c cs)
  from self_None_exec [OF Cons.prems, of env c]
  have a: "sk_self (the_socks (world_of (socks_exec env c w))) = None"
    and b: "filter host_event (trace (world_of (socks_exec env c w))) = filter host_event (trace w)"
    by simp_all
  from Cons.IH [OF a] b show ?case by simp
qed

lemma boots_listening_boots:
  "the_boots w' = the_boots w \<Longrightarrow> boots_listening w' = boots_listening w"
  by (simp add: boots_listening_def split: option.splits callback.splits)

lemma frame_boots_listening: "frame w w' \<Longrightarrow> boots_listening w \<Longrightarrow> boots_listening w'"
  by (drule frame_kept) (simp add: kept_def boots_listening_def split: option.splits callback.splits)

lemma isWorkerSupported_self:
  "sk_self s' = sk_self s \<Longrightarrow> isWorkerSupported env s' = isWorkerSupported env s"
  by (simp add: isWorkerSupported_def)

lemma frame_bridge_inv:
  assumes "frame w w'" "bridge_inv env w"
  shows "bridge_inv env w'"
proof -
  from frame_kept [OF assms(1)] have s: "sk_self (the_socks w') = sk_self (the_socks w)"
    and b: "sk_boots (the_socks w') = sk_boots (the_socks w)"
    and r: "sk_isReady (the_socks w) \<longrightarrow> sk_isReady (the_socks w')"
    by (simp_all add: kept_def)
  from s have "isWorkerSupported env (the_socks w') = isWorkerSupported env (the_socks w)"
    by (rule isWorkerSupported_self)
  with assms b r frame_boots_listening [OF assms(1)] show ?thesis
    by (simp add: bridge_inv_def)
qed

lemma invoke_listening:
  "boots_listening w \<Longrightarrow> wb_onMessageCallback (the_boots w) = Some cb \<Longrightarrow>
     list_all stringifiable args \<Longrightarrow> returns (invoke cb args w)"
  by (cases cb; cases args) (auto simp: boots_listening_def velcroAndLaces_def Let_def)

lemma boots_onMessageLocal_returns:
  assumes "sk_boots (the_socks w) \<noteq> None" "boots_listening w" "stringifiable d"
  shows "returns (boots_onMessageLocal d og tr args w)"
proof -
  from assms(3) have sd: "list_all stringifiable [envelope d]" by (simp add: envelope_def)
  from assms(2) obtain cb where cb: "wb_onMessageCallback (the_boots w) = Some cb"
    by (cases "wb_onMessageCallback (the_boots w)") (simp_all add: boots_listening_def)
  let ?w0 = "emit (BootsOnMessageLocal args) w"
  have "the_boots ?w0 = the_boots w" by (simp add: emit_def)
  from boots_listening_boots [OF this] assms(2) cb this
  have "boots_listening ?w0" "wb_onMessageCallback (the_boots ?w0) = Some cb"
    by simp_all
  from invoke_listening [OF this sd] have "returns (WorkBoots_onMessageLocal d og tr ?w0)"
    using cb by (simp add: WorkBoots_onMessageLocal_def emit_def)
  with assms(1) show ?thesis
    by (auto simp: boots_onMessageLocal_def split: option.splits boots_ref.splits)
qed

lemma Socks_message_not_null: "d \<noteq> JNull \<Longrightarrow> \<exists>m. Socks_message d = Inr m"
  by (cases d) (simp_all add: Socks_message_def)

lemma Socks_message_stringifiable:
  "Socks_message d = Inr m \<Longrightarrow> stringifiable d \<Longrightarrow> stringifiable m"
  by (auto simp: Socks_message_def envelope_def split: if_splits sum.splits)

text \<open>A payload that the bridge can deliver to a listening Controller.\<close>

lemma bridge_postMessage_returns:
  assumes "bridge_inv env w" "d \<noteq> JNull" "stringifiable d"
  shows "returns (Socks_postMessage env d og tr w)"
proof -
  from Socks_message_not_null [OF assms(2)] obtain m where m: "Socks_message d = Inr m" ..
  from Socks_message_stringifiable [OF m assms(3)] have "stringifiable m" .
  with m assms(1) show ?thesis
    by (simp add: Socks_postMessage_def bridge_inv_def boots_onMessageLocal_returns)
qed

lemma bridge_forEach_returns:
  "bridge_inv env w \<Longrightarrow> \<forall>a \<in> set q. fst a \<noteq> JNull \<and> stringifiable (fst a) \<Longrightarrow>
     returns (forEach_postMessage env q w)"
proof (induction q arbitrary: w)
  case Nil
  show ?case by simp
next
  case (Cons a q)
  obtain d og tr where a: "a = (d, og, tr)" by (cases a)
  from Cons.prems(2) a have d: "d \<noteq> JNull" and sd: "stringifiable d"
    and rest: "\<forall>a \<in> set q. fst a \<noteq> JNull \<and> stringifiable (fst a)"
    by simp_all
  from bridge_postMessage_returns [OF Cons.prems(1) d sd, of og tr]
  obtain w1 where w1: "Socks_postMessage env d og tr w = Returns w1"
    by (cases "Socks_postMessage env d og tr w") simp_all
  from frame_Socks_postMessage [of w env d og tr] w1 have "frame w w1" by simp
  from frame_bridge_inv [OF this Cons.prems(1)] have "bridge_inv env w1" .
  from Cons.IH [OF this rest] a w1 show ?case by simp
qed

lemma invoke_socks: "the_socks (world_of (invoke cb args w)) = the_socks w"
  by (cases cb)
     (simp_all add: velcroAndLaces_def Let_def resolve_def upd_boots_def emit_def
        split: option.splits promise.splits)

lemma boots_onMessageLocal_socks:
  "the_socks (world_of (boots_onMessageLocal d og tr args w)) = the_socks w"
proof (cases "sk_boots (the_socks w)")
  case None
  then show ?thesis by (simp add: boots_onMessageLocal_def)
next
  case (Some r)
  let ?w0 = "emit (BootsOnMessageLocal args) w"
  have "the_socks (world_of (WorkBoots_onMessageLocal d og tr ?w0)) = the_socks ?w0"
    by (cases "wb_onMessageCallback (the_boots ?w0)")
       (simp_all add: WorkBoots_onMessageLocal_def invoke_socks)
  with Some show ?thesis by (cases r) (simp add: boots_onMessageLocal_def emit_def)
qed

lemma bridge_ready_returns:
  assumes ns: "\<not> isWorkerSupported env (the_socks w)"
    and b: "sk_boots (the_socks w) \<noteq> None"
    and l: "boots_listening w"
    and q: "\<forall>a \<in> set (sk_postsBeforeReady (the_socks w)). fst a \<noteq> JNull \<and> stringifiable (fst a)"
  shows "returns (Socks_ready env w)"
proof -
  let ?call = "boots_onMessageLocal socks_loaded JUndefined [] [socks_loaded] w"
  have sl: "stringifiable socks_loaded" by (simp add: socks_loaded_def)
  from boots_onMessageLocal_returns [OF b l sl, of JUndefined "[]" "[socks_loaded]"]
  obtain w1 where w1: "?call = Returns w1"
    by (cases ?call) simp_all
  from frame_boots_onMessageLocal [of w socks_loaded JUndefined "[]" "[socks_loaded]"] w1
  have f: "frame w w1" by simp
  from boots_onMessageLocal_socks [of socks_loaded JUndefined "[]" "[socks_loaded]" w] w1
  have s: "the_socks w1 = the_socks w" by simp
  let ?w2 = "upd_socks (\<lambda>s. s\<lparr>sk_isReady := True\<rparr>)
               (upd_socks (\<lambda>s. s\<lparr>sk_sentReadyMessage := True\<rparr>) w1)"
  have "the_boots ?w2 = the_boots w1" by (simp add: upd_socks_def)
  from boots_listening_boots [OF this] frame_boots_listening [OF f l]
  have "boots_listening ?w2" by simp
  moreover have "sk_self (the_socks ?w2) = sk_self (the_socks w)"
    using s by (simp add: upd_socks_def)
  from isWorkerSupported_self [OF this, of env] ns
  have "\<not> isWorkerSupported env (the_socks ?w2)" by simp
  moreover from b s have "sk_boots (the_socks ?w2) \<noteq> None" by (simp add: upd_socks_def)
  ultimately have inv: "bridge_inv env ?w2"
    by (simp add: bridge_inv_def upd_socks_def)
  from q s have "\<forall>a \<in> set (sk_postsBeforeReady (the_socks ?w2)).
      fst a \<noteq> JNull \<and> stringifiable (fst a)"
    by (simp add: upd_socks_def)
  from bridge_forEach_returns [OF inv this]
  obtain w3 where "forEach_postMessage env (sk_postsBeforeReady (the_socks ?w2)) ?w2 = Returns w3"
    by (cases "forEach_postMessage env (sk_postsBeforeReady (the_socks ?w2)) ?w2") simp_all
  then have "returns (processReadyMessages env ?w2)"
    by (simp add: processReadyMessages_def upd_socks_def)
  with ns b w1 show ?thesis by (simp add: Socks_ready_def)
qed

lemma bridge_enterBoots_returns:
  assumes ns: "\<not> isWorkerSupported env (the_socks w)"
    and l: "boots_listening w"
    and q: "\<forall>a \<in> set (sk_postsBeforeReady (the_socks w)). fst a \<noteq> JNull \<and> stringifiable (fst a)"
  shows "returns (Socks_enterBoots env w)"
proof -
  let ?w1 = "upd_socks (\<lambda>s. s\<lparr>sk_boots := Some TheBoots\<rparr>) w"
  let ?r = "if sk_isReady (the_socks ?w1) \<and> \<not> sk_sentReadyMessage (the_socks ?w1)
            then Socks_ready env ?w1 else Returns ?w1"
  have "sk_self (the_socks ?w1) = sk_self (the_socks w)" by (simp add: upd_socks_def)
  from isWorkerSupported_self [OF this, of env] ns
  have 1: "\<not> isWorkerSupported env (the_socks ?w1)" by simp
  have 2: "sk_boots (the_socks ?w1) \<noteq> None" by (simp add: upd_socks_def)
  have "the_boots ?w1 = the_boots w" by (simp add: upd_socks_def)
  from boots_listening_boots [OF this] l have 3: "boots_listening ?w1" by simp
  from q have 4: "\<forall>a \<in> set (sk_postsBeforeReady (the_socks ?w1)).
      fst a \<noteq> JNull \<and> stringifiable (fst a)"
    by (simp add: upd_socks_def)
  from bridge_ready_returns [OF 1 2 3 4] have "returns ?r" by simp
  then obtain w2 where "?r = Returns w2" by (cases ?r) simp_all
  then show ?thesis by (simp add: Socks_enterBoots_def Let_def)
qed

lemma returns_world_of: "returns r \<Longrightarrow> r = Returns (world_of r)"
  by (cases r) simp_all

text \<open>
  What \<^verbatim>\<open>Socks.enterBoots(controller)\<close> establishes when it returns: the Controller
  reference is bound; if \<open>isReady\<close> was already true and the sentinel had not been sent,
  the call has sent the sentinel (the trace has grown by events among which one carries
  \<^verbatim>\<open>"socks loaded"\<close> out of the Peer) and \<open>sentReadyMessage\<close> is set; a handler held in the
  host's \<^verbatim>\<open>onmessage\<close> property is now the local application callback; the host reference
  is absent, and after any sequence of further Peer operations it is still absent,
  \<^verbatim>\<open>isWorkerSupported()\<close> is false and no operation on the host has been added to the
  trace. The call does return whenever the Peer has no usable host, the Controller is
  listening with a callback that returns, and every queued payload can be delivered (it
  is not \<^verbatim>\<open>null\<close> and holds no BigInt).
\<close>

theorem enterBoots_adoption:
  "(\<not> isWorkerSupported env (the_socks w) \<and> boots_listening w \<and>
    (\<forall>a \<in> set (sk_postsBeforeReady (the_socks w)). fst a \<noteq> JNull \<and> stringifiable (fst a)) \<longrightarrow>
      returns (Socks_enterBoots env w)) \<and>
   (\<forall>w'. Socks_enterBoots env w = Returns w' \<longrightarrow>
      sk_boots (the_socks w') = Some TheBoots \<and>
      sk_self (the_socks w') = None \<and>
      (sk_isReady (the_socks w) \<and> \<not> sk_sentReadyMessage (the_socks w) \<longrightarrow>
         sk_sentReadyMessage (the_socks w') \<and>
         (\<exists>evs. trace w' = trace w @ evs \<and> list_ex sends_sentinel evs)) \<and>
      (\<forall>h cb. sk_self (the_socks w) = Some h \<and> onmessage h = Some cb \<longrightarrow>
         sk_onMessageCallback (the_socks w') = Some cb) \<and>
      (\<forall>calls. sk_self (the_socks (socks_run env calls w')) = None \<and>
         \<not> isWorkerSupported env (the_socks (socks_run env calls w')) \<and>
         filter host_event (trace (socks_run env calls w')) = filter host_event (trace w')))"
proof (intro conjI impI allI)
  assume "\<not> isWorkerSupported env (the_socks w) \<and> boots_listening w \<and>
    (\<forall>a \<in> set (sk_postsBeforeReady (the_socks w)). fst a \<noteq> JNull \<and> stringifiable (fst a))"
  then show "returns (Socks_enterBoots env w)"
    by (simp add: bridge_enterBoots_returns)
next
  fix w'
  assume eb: "Socks_enterBoots env w = Returns w'"
  let ?w1 = "upd_socks (\<lambda>s. s\<lparr>sk_boots := Some TheBoots\<rparr>) w"
  let ?r = "if sk_isReady (the_socks ?w1) \<and> \<not> sk_sentReadyMessage (the_socks ?w1)
            then Socks_ready env ?w1 else Returns ?w1"
  from eb obtain w2 where r: "?r = Returns w2"
    and w': "w' = upd_socks (\<lambda>s. (capture_onmessage s)\<lparr>sk_self := None\<rparr>) w2"
    by (auto simp: Socks_enterBoots_def Let_def and_then_Returns)
  have "frame ?w1 (world_of ?r)" by (simp add: frame_Socks_ready frame_refl)
  with r have "frame ?w1 w2" by simp
  then have k: "kept ?w1 w2" by (rule frame_kept)
  show boots: "sk_boots (the_socks w') = Some TheBoots"
    using k w' by (simp add: kept_def upd_socks_def capture_onmessage_def split: option.splits)
  show self: "sk_self (the_socks w') = None"
    using w' by (simp add: upd_socks_def)
  {
    assume c: "sk_isReady (the_socks w) \<and> \<not> sk_sentReadyMessage (the_socks w)"
    with r have "Socks_ready env ?w1 = Returns w2" by (simp add: upd_socks_def)
    from ready_sends_sentinel [OF this] c
    have s: "sk_sentReadyMessage (the_socks w2) \<and>
          (\<exists>evs. trace w2 = trace ?w1 @ evs \<and> list_ex sends_sentinel evs)"
      by (simp add: upd_socks_def)
    from s w' show "sk_sentReadyMessage (the_socks w')"
      by (simp add: upd_socks_def capture_onmessage_def split: option.splits)
    from s w' show "\<exists>evs. trace w' = trace w @ evs \<and> list_ex sends_sentinel evs"
      by (simp add: upd_socks_def)
  }
  {
    fix h cb
    assume hc: "sk_self (the_socks w) = Some h \<and> onmessage h = Some cb"
    with k have "sk_self (the_socks w2) = Some h" by (simp add: kept_def upd_socks_def)
    with hc w' show "sk_onMessageCallback (the_socks w') = Some cb"
      by (simp add: upd_socks_def capture_onmessage_def)
  }
  {
    fix calls
    from self_None_run [OF self, of env calls]
    show "sk_self (the_socks (socks_run env calls w')) = None"
      and "filter host_event (trace (socks_run env calls w')) = filter host_event (trace w')"
      by simp_all
    then show "\<not> isWorkerSupported env (the_socks (socks_run env calls w'))"
      by (simp add: isWorkerSupported_def)
  }
qed

theorem enterBoots_adoption_witness:
  "returns (Socks_enterBoots old_browser_env racing_world) \<and>
   sk_boots (the_socks (world_of (Socks_enterBoots old_browser_env racing_world))) = Some TheBoots \<and>
   sk_self (the_socks (world_of (Socks_enterBoots old_browser_env racing_world))) = None \<and>
   sk_sentReadyMessage (the_socks (world_of (Socks_enterBoots old_browser_env racing_world))) \<and>
   sk_onMessageCallback (the_socks (world_of (Socks_enterBoots old_browser_env racing_world))) =
     Some (AppCallback 7) \<and>
   filter host_event (trace (socks_run old_browser_env
       [PostMessage (JNum 5) JUndefined [], Terminate]
       (world_of (Socks_enterBoots old_browser_env racing_world)))) = []"
proof -
  let ?w = racing_world
  let ?w' = "world_of (Socks_enterBoots old_browser_env ?w)"
  note adoption = enterBoots_adoption [of old_browser_env ?w]
  have h1: "\<not> isWorkerSupported old_browser_env (the_socks ?w) \<and> boots_listening ?w \<and>
    (\<forall>a \<in> set (sk_postsBeforeReady (the_socks ?w)). fst a \<noteq> JNull \<and> stringifiable (fst a))"
    by code_simp
  from adoption h1 have r: "returns (Socks_enterBoots old_browser_env ?w)" by simp
  then have e: "Socks_enterBoots old_browser_env ?w = Returns ?w'" by (rule returns_world_of)
  have h2: "sk_isReady (the_socks ?w) \<and> \<not> sk_sentReadyMessage (the_socks ?w)" by code_simp
  have h3: "sk_self (the_socks ?w) = Some window_host \<and> onmessage window_host = Some (AppCallback 7)"
    by code_simp
  have h4: "filter host_event (trace ?w') = []" by code_simp
  note post = adoption [THEN conjunct2, THEN spec, THEN mp, OF e]
  note sentinel = post [THEN conjunct2, THEN conjunct2, THEN conjunct1, THEN mp, OF h2]
  note capture = post [THEN conjunct2, THEN conjunct2, THEN conjunct2, THEN conjunct1,
    THEN spec, THEN spec, THEN mp, OF h3]
  note later = post [THEN conjunct2, THEN conjunct2, THEN conjunct2, THEN conjunct2, THEN spec,
    of "[PostMessage (JNum 5) JUndefined [], Terminate]"]
  from sentinel have a: "sk_sentReadyMessage (the_socks ?w')" by simp
  from capture have b: "sk_onMessageCallback (the_socks ?w') = Some (AppCallback 7)" .
  from later h4 have c: "filter host_event (trace (socks_run old_browser_env
       [PostMessage (JNum 5) JUndefined [], Terminate] ?w')) = []" by simp
  from r post a b c show ?thesis by simp
qed

text \<open>
  In Node, on a host with the emitter interface, \<^verbatim>\<open>onMessage\<close> appends the handler to the
  listeners of the host, and an adoption that follows leaves the callback slot of the
  Peer as it was before the handler was registered.
\<close>

lemma emitter_handler_not_captured:
  assumes e: "\<not> isBrowser env" "isNode env"
    and h: "sk_self (the_socks w) = Some h" "has_on h" "onmessage h = None"
    and r: "Socks_enterBoots env (world_of (Socks_onMessage env cb w)) = Returns w'"
  shows "sk_onMessageCallback (the_socks w') = sk_onMessageCallback (the_socks w)"
proof -
  let ?h = "h\<lparr>listeners := listeners h @ [cb]\<rparr>"
  let ?w0 = "upd_socks (\<lambda>s. s\<lparr>sk_self := Some ?h\<rparr>) w"
  from e h have w0: "world_of (Socks_onMessage env cb w) = ?w0"
    by (simp add: Socks_onMessage_def isWorkerSupported_def attach_def upd_socks_def)
  let ?w1 = "upd_socks (\<lambda>s. s\<lparr>sk_boots := Some TheBoots\<rparr>) ?w0"
  obtain w2 where f: "frame ?w1 w2" and
    d: "(\<exists>e. Socks_enterBoots env ?w0 = Throws e w2) \<or>
        Socks_enterBoots env ?w0 = Returns (upd_socks (\<lambda>s. (capture_onmessage s)\<lparr>sk_self := None\<rparr>) w2)"
    by (rule enterBoots_cases)
  from r w0 d have w': "w' = upd_socks (\<lambda>s. (capture_onmessage s)\<lparr>sk_self := None\<rparr>) w2"
    by auto
  from frame_kept [OF f] have "sk_self (the_socks w2) = Some ?h"
    and "sk_onMessageCallback (the_socks w2) = sk_onMessageCallback (the_socks w)"
    by (simp_all add: kept_def upd_socks_def)
  with w' h(3) show ?thesis by (simp add: upd_socks_def capture_onmessage_def)
qed

text \<open>
  Claim C8. Adoption postcondition of \<^verbatim>\<open>Socks.enterBoots(controller)\<close>: the Controller
  reference is bound, the sentinel is sent in the ready/adopt race, any message handler
  installed on the host reference is captured as the local application callback, and the
  host reference is discarded. The code in Node, for a Peer built on a host with the
  emitter interface: \<^verbatim>\<open>Socks.onMessage\<close> installs the handler with
  \<^verbatim>\<open>self.on('message', callback)\<close>, and \<^verbatim>\<open>enterBoots\<close> reads \<^verbatim>\<open>self.onmessage\<close> only.
  Before adoption the handler is in the listener list of the host. After adoption the
  Controller is bound, the host reference is absent and the readiness promise is
  resolved, but the callback slot of the Peer is empty: the handler went with the host,
  and the next \<^verbatim>\<open>postMessage\<close> of the Controller crosses the bridge and makes
  \<^verbatim>\<open>Socks.onMessageLocal\<close> throw its missing-callback error.
\<close>

theorem emitter_handler_lost:
  "map_option listeners (sk_self (the_socks (world_of (script node_env emitter_peer start)))) =
     Some [AppCallback 1] \<and>
   map_option onmessage (sk_self (the_socks (world_of (script node_env emitter_peer start)))) =
     Some None \<and>
   returns (script node_env emitter_adoption start) \<and>
   sk_boots (the_socks (world_of (script node_env emitter_adoption start))) = Some TheBoots \<and>
   sk_self (the_socks (world_of (script node_env emitter_adoption start))) = None \<and>
   WorkBoots_ready (world_of (script node_env emitter_adoption start)) = Resolved \<and>
   sk_onMessageCallback (the_socks (world_of (script node_env emitter_adoption start))) = None \<and>
   step_exec node_env (Boots_postMessage elite JUndefined [])
       (world_of (script node_env emitter_adoption start)) =
     Throws missing_callback
       (emit (SocksOnMessageLocal [envelope elite, JArr []])
          (world_of (script node_env emitter_adoption start)))"
  by code_simp

section \<open>Fallback\<close>

lemma awaiting_same:
  "loadPending w' = loadPending w \<Longrightarrow>
   wb_readyPromise (the_boots w') = wb_readyPromise (the_boots w) \<Longrightarrow>
   awaiting w' = awaiting w"
  by (simp add: awaiting_def)

lemma awaiting_frame:
  assumes "frame w w'" "awaiting w"
  shows "awaiting w'"
proof -
  from frame_kept [OF assms(1)] have l: "loadPending w' = loadPending w"
    and p: "wb_readyPromise (the_boots w') = wb_readyPromise (the_boots w) \<or>
      wb_readyPromise (the_boots w') = Resolved \<and> wb_readyPromise (the_boots w) = Pending"
    by (simp_all add: kept_def)
  from p show ?thesis
  proof
    assume "wb_readyPromise (the_boots w') = wb_readyPromise (the_boots w)"
    from awaiting_same [OF l this] assms(2) show ?thesis by simp
  next
    assume "wb_readyPromise (the_boots w') = Resolved \<and> wb_readyPromise (the_boots w) = Pending"
    with l assms(2) show ?thesis by (simp add: awaiting_def)
  qed
qed

lemma frame_replay: "frame w (world_of (replay q w))"
proof (induction q arbitrary: w)
  case Nil
  show ?case by (simp add: frame_refl)
next
  case (Cons m q)
  have "frame w (world_of (case wb_onMessageCallback (the_boots w) of
          None \<Rightarrow> Returns w | Some cb \<Rightarrow> invoke cb m w))"
    by (cases "wb_onMessageCallback (the_boots w)") (simp_all add: frame_refl frame_invoke)
  from frame_and_then [of w _ "replay q", OF this Cons.IH] show ?case by simp
qed

lemma awaiting_WorkBoots_onMessage:
  assumes "awaiting w"
  shows "awaiting (world_of (WorkBoots_onMessage env cb w))"
proof -
  let ?w1 = "upd_boots (\<lambda>b. b\<lparr>wb_onMessageCallback := Some cb\<rparr>) w"
  let ?w2 = "case wb_worker (the_boots ?w1) of
                  None \<Rightarrow> ?w1
                | Some h \<Rightarrow> upd_boots (\<lambda>b. b\<lparr>wb_worker := Some (attach env cb h)\<rparr>) ?w1"
  have "loadPending ?w2 = loadPending w"
    and "wb_readyPromise (the_boots ?w2) = wb_readyPromise (the_boots w)"
    by (simp_all add: upd_boots_def split: option.splits)
  from awaiting_same [OF this] assms have a: "awaiting ?w2" by simp
  show ?thesis
  proof (cases "wb_receivedBeforeReady (the_boots ?w2)")
    case None
    with a show ?thesis by (simp add: WorkBoots_onMessage_def Let_def)
  next
    case (Some q)
    from awaiting_frame [OF frame_replay a, of q] Some show ?thesis
      by (simp add: WorkBoots_onMessage_def Let_def)
  qed
qed

lemma frame_mock_onMessageLocal: "frame w (world_of (mock_onMessageLocal m w))"
  by (cases "wb_onMessageCallback (the_boots w)")
     (simp_all add: mock_onMessageLocal_def frame_refl frame_invoke)

lemma frame_WorkBoots_postMessage: "frame w (world_of (WorkBoots_postMessage env d og tr w))"
proof (cases "wb_isReady (the_boots w)")
  case False
  then show ?thesis
    by (cases "wb_onMessageCallback (the_boots w)")
       (simp_all add: WorkBoots_postMessage_def Let_def frame_refl frame_invoke)
next
  case True
  show ?thesis
  proof (cases "WorkBoots_message d")
    case (Inl e)
    with True show ?thesis by (simp add: WorkBoots_postMessage_def Let_def frame_refl)
  next
    case (Inr m)
    let ?w0 = "emit (SocksOnMessageLocal [m, JArr tr]) w"
    have e: "frame w ?w0" by (simp add: frame_emit)
    have a: "frame w (world_of (Socks_onMessageLocal m (JArr tr) [] ?w0))"
      by (rule frame_trans [OF e frame_Socks_onMessageLocal])
    have b: "frame w (world_of (mock_onMessageLocal m ?w0))"
      by (rule frame_trans [OF e frame_mock_onMessageLocal])
    have c: "frame w (world_of (case wb_socks (the_boots w) of
                  None \<Rightarrow> Returns w
                | Some TheSocks \<Rightarrow> Socks_onMessageLocal m (JArr tr) [] ?w0
                | Some MockSocks \<Rightarrow> mock_onMessageLocal m ?w0))"
      by (simp add: a b frame_refl split: option.splits socks_ref.splits)
    from True Inr c show ?thesis
      by (simp add: WorkBoots_postMessage_def Let_def frame_refl frame_emit)
  qed
qed

lemma frame_WorkBoots_terminate: "frame w (world_of (WorkBoots_terminate env w))"
  by (simp add: WorkBoots_terminate_def frame_refl frame_emit frame_Socks_terminate
        split: option.splits socks_ref.splits)

lemma frame_forEach_listener: "frame w (world_of (forEach_listener cbs m w))"
proof (induction cbs arbitrary: w)
  case Nil
  show ?case by (simp add: frame_refl)
next
  case (Cons cb cbs)
  from frame_and_then [of w _ "forEach_listener cbs m", OF frame_invoke Cons.IH]
  show ?case by simp
qed

lemma frame_worker_emit: "frame w (world_of (worker_emit m w))"
  by (simp add: worker_emit_def frame_refl frame_invoke frame_forEach_listener
        split: option.splits)

lemma awaiting_socks_exec:
  assumes "awaiting w"
  shows "awaiting (world_of (socks_exec env c w))"
proof (cases c)
  case Ready
  from awaiting_frame [OF frame_Socks_ready assms] show ?thesis unfolding Ready by simp
next
  case ProcessReadyMessages
  from awaiting_frame [OF frame_processReadyMessages assms] show ?thesis
    unfolding ProcessReadyMessages by simp
next
  case EnterBoots
  let ?w1 = "upd_socks (\<lambda>s. s\<lparr>sk_boots := Some TheBoots\<rparr>) w"
  obtain w2 where f: "frame ?w1 w2" and
    d: "(\<exists>e. Socks_enterBoots env w = Throws e w2) \<or>
        Socks_enterBoots env w = Returns (upd_socks (\<lambda>s. (capture_onmessage s)\<lparr>sk_self := None\<rparr>) w2)"
    by (rule enterBoots_cases)
  have "loadPending ?w1 = loadPending w"
    "wb_readyPromise (the_boots ?w1) = wb_readyPromise (the_boots w)"
    by (simp_all add: upd_socks_def)
  from awaiting_same [OF this] assms have "awaiting ?w1" by simp
  from awaiting_frame [OF f this] have a: "awaiting w2" .
  let ?w3 = "upd_socks (\<lambda>s. (capture_onmessage s)\<lparr>sk_self := None\<rparr>) w2"
  have "loadPending ?w3 = loadPending w2"
    "wb_readyPromise (the_boots ?w3) = wb_readyPromise (the_boots w2)"
    by (simp_all add: upd_socks_def)
  from awaiting_same [OF this] a have b: "awaiting ?w3" by simp
  from d show ?thesis
  proof
    assume "\<exists>e. Socks_enterBoots env w = Throws e w2"
    then obtain e where "Socks_enterBoots env w = Throws e w2" ..
    with a show ?thesis unfolding EnterBoots by simp
  next
    assume "Socks_enterBoots env w = Returns ?w3"
    with b show ?thesis unfolding EnterBoots by simp
  qed
next
  case (PostMessage d og tr)
  from awaiting_frame [OF frame_Socks_postMessage assms] show ?thesis
    unfolding PostMessage by simp
next
  case (OnMessage cb)
  have "loadPending (world_of (Socks_onMessage env cb w)) = loadPending w"
    "wb_readyPromise (the_boots (world_of (Socks_onMessage env cb w))) = wb_readyPromise (the_boots w)"
    by (simp_all add: Socks_onMessage_def upd_socks_def)
  from awaiting_same [OF this] assms show ?thesis unfolding OnMessage by simp
next
  case (OnMessageLocal d og tr)
  from awaiting_frame [OF frame_Socks_onMessageLocal assms] show ?thesis
    unfolding OnMessageLocal by simp
next
  case Terminate
  from awaiting_frame [OF frame_Socks_terminate assms] show ?thesis
    unfolding Terminate by simp
next
  case (OnTerminate cb)
  have "loadPending (world_of (Socks_onTerminate cb w)) = loadPending w"
    "wb_readyPromise (the_boots (world_of (Socks_onTerminate cb w))) = wb_readyPromise (the_boots w)"
    by (simp_all add: Socks_onTerminate_def upd_socks_def)
  from awaiting_same [OF this] assms show ?thesis unfolding OnTerminate by simp
qed

lemma awaiting_step:
  assumes "awaiting w" "while_loading s"
  shows "awaiting (world_of (step_exec env s w))"
proof (cases s)
  case (NewWorkBoots f fac)
  with assms(2) show ?thesis by simp
next
  case (NewSocks self)
  have "loadPending (w\<lparr>the_socks := Socks_constructor self\<rparr>) = loadPending w"
    "wb_readyPromise (the_boots (w\<lparr>the_socks := Socks_constructor self\<rparr>)) = wb_readyPromise (the_boots w)"
    by simp_all
  from awaiting_same [OF this] assms(1) show ?thesis unfolding NewSocks by simp
next
  case (Boots_onMessage cb)
  from awaiting_WorkBoots_onMessage [OF assms(1)] show ?thesis unfolding Boots_onMessage by simp
next
  case (Boots_postMessage d og tr)
  from awaiting_frame [OF frame_WorkBoots_postMessage assms(1)] show ?thesis
    unfolding Boots_postMessage by simp
next
  case Boots_terminate
  from awaiting_frame [OF frame_WorkBoots_terminate assms(1)] show ?thesis
    unfolding Boots_terminate by simp
next
  case (Peer c)
  from awaiting_socks_exec [OF assms(1)] show ?thesis unfolding Peer by simp
next
  case (LoadSettles r)
  with assms(2) show ?thesis by simp
next
  case (WorkerEmits m)
  from awaiting_frame [OF frame_worker_emit assms(1)] show ?thesis
    unfolding WorkerEmits by simp
qed

lemma awaiting_run:
  "awaiting w \<Longrightarrow> list_all while_loading ss \<Longrightarrow> awaiting (run env ss w)"
proof (induction ss arbitrary: w)
  case Nil
  then show ?case by simp
next
  case (Cons s ss)
  from Cons.prems(2) have s: "while_loading s" and ss: "list_all while_loading ss" by simp_all
  from Cons.IH [OF awaiting_step [OF Cons.prems(1) s] ss] show ?case by simp
qed

lemma constructor_factory_throws:
  "WorkBoots_constructor env (Some f) (FactoryThrows e) w = Returns (fallback_world w)"
  by (simp add: WorkBoots_constructor_def WorkBoots_onMessage_def upd_boots_def Let_def
        try_instantiateWorker_def awaiting_load_def fallback_world_def)

lemma awaiting_fallback_world: "awaiting (fallback_world w)"
  by (simp add: awaiting_def fallback_world_def awaiting_load_def)

lemma load_catch_ready:
  assumes "wb_readyPromise (the_boots w) = Pending \<or> wb_readyPromise (the_boots w) = Resolved"
    and "has_message e"
  shows "wb_readyPromise (the_boots (world_of (load_catch e w))) = Resolved \<and>
         wb_isReady (the_boots (world_of (load_catch e w))) \<and>
         wb_socks (the_boots (world_of (load_catch e w))) = Some MockSocks"
  using assms by (auto simp: load_catch_def resolve_def upd_boots_def)

lemma load_settled_ready:
  assumes "awaiting w" and c: "catch_reads_message env r w"
  shows "wb_readyPromise (the_boots (loadSocksFile_settled env r w)) = Resolved \<and>
         wb_isReady (the_boots (loadSocksFile_settled env r w)) \<and>
         (wb_socks (the_boots (loadSocksFile_settled env r w)) = Some TheSocks \<or>
          wb_socks (the_boots (loadSocksFile_settled env r w)) = Some MockSocks) \<and>
         (r \<noteq> Loaded True \<longrightarrow> wb_socks (the_boots (loadSocksFile_settled env r w)) = Some MockSocks)"
proof -
  from assms have p: "loadPending w"
    and np: "wb_readyPromise (the_boots w) = Pending \<or> wb_readyPromise (the_boots w) = Resolved"
    by (simp_all add: awaiting_def)
  let ?w0 = "w\<lparr>loadPending := False\<rparr>"
  show ?thesis
  proof (cases r)
    case (LoadRejected e)
    from np have "wb_readyPromise (the_boots ?w0) = Pending \<or> wb_readyPromise (the_boots ?w0) = Resolved"
      by simp
    moreover from c LoadRejected have "has_message e" by (simp add: catch_reads_message_def)
    ultimately show ?thesis using load_catch_ready [of ?w0 e] p LoadRejected
      by (simp add: loadSocksFile_settled_def)
  next
    case (Loaded exports_socks)
    show ?thesis
    proof (cases exports_socks)
      case False
      let ?w1 = "upd_boots (\<lambda>b. b\<lparr>wb_socks := None\<rparr>) ?w0"
      let ?e = "TypeError ''Cannot read properties of undefined (reading enterBoots)''"
      from np have "wb_readyPromise (the_boots ?w1) = Pending \<or> wb_readyPromise (the_boots ?w1) = Resolved"
        by (simp add: upd_boots_def)
      moreover have "has_message ?e" by simp
      ultimately show ?thesis using load_catch_ready [of ?w1 ?e] p Loaded False
        by (simp add: loadSocksFile_settled_def load_then_def)
    next
      case True
      let ?w1 = "upd_boots (\<lambda>b. b\<lparr>wb_socks := Some TheSocks\<rparr>) ?w0"
      let ?w1' = "upd_socks (\<lambda>s. s\<lparr>sk_boots := Some TheBoots\<rparr>) ?w1"
      obtain w2 where f: "frame ?w1' w2" and
        d: "(\<exists>e. Socks_enterBoots env ?w1 = Throws e w2) \<or>
            Socks_enterBoots env ?w1 = Returns (upd_socks (\<lambda>s. (capture_onmessage s)\<lparr>sk_self := None\<rparr>) w2)"
        by (rule enterBoots_cases)
      from frame_kept [OF f] have
        q': "wb_readyPromise (the_boots w2) = wb_readyPromise (the_boots ?w1') \<or>
             wb_readyPromise (the_boots w2) = Resolved \<and> wb_readyPromise (the_boots ?w1') = Pending"
        and s': "wb_socks (the_boots w2) = wb_socks (the_boots ?w1')"
        by (simp_all add: kept_def)
      from s' have s: "wb_socks (the_boots w2) = Some TheSocks"
        by (simp add: upd_boots_def upd_socks_def)
      have "wb_readyPromise (the_boots ?w1') = wb_readyPromise (the_boots w)"
        by (simp add: upd_boots_def upd_socks_def)
      with q' np have q: "wb_readyPromise (the_boots w2) = Pending \<or> wb_readyPromise (the_boots w2) = Resolved"
        by (elim disjE conjE) simp_all
      from d show ?thesis
      proof
        assume "\<exists>e. Socks_enterBoots env ?w1 = Throws e w2"
        then obtain e where e: "Socks_enterBoots env ?w1 = Throws e w2" ..
        with c Loaded True have "has_message e"
          by (simp add: catch_reads_message_def load_then_def)
        from load_catch_ready [OF q this] e p Loaded True show ?thesis
          by (simp add: loadSocksFile_settled_def load_then_def)
      next
        let ?w3 = "upd_socks (\<lambda>s. (capture_onmessage s)\<lparr>sk_self := None\<rparr>) w2"
        assume e: "Socks_enterBoots env ?w1 = Returns ?w3"
        from q have "wb_readyPromise (the_boots
            (resolve (upd_boots (\<lambda>b. b\<lparr>wb_isReady := True\<rparr>) ?w3))) = Resolved"
          by (elim disjE) (simp_all add: resolve_def upd_boots_def upd_socks_def)
        moreover have "wb_isReady (the_boots (resolve (upd_boots (\<lambda>b. b\<lparr>wb_isReady := True\<rparr>) ?w3)))"
          by (cases "wb_readyPromise (the_boots w2)")
             (simp_all add: resolve_def upd_boots_def upd_socks_def)
        moreover from s have "wb_socks (the_boots (resolve (upd_boots (\<lambda>b. b\<lparr>wb_isReady := True\<rparr>) ?w3)))
            = Some TheSocks"
          by (cases "wb_readyPromise (the_boots w2)")
             (simp_all add: resolve_def upd_boots_def upd_socks_def)
        ultimately show ?thesis using e p Loaded True
          by (simp add: loadSocksFile_settled_def load_then_def)
      qed
    qed
  qed
qed

text \<open>
  A rejection whose reason has no readable \<^verbatim>\<open>message\<close> stops the second handler at its
  first statement: the load is over and the Controller is as it was.
\<close>

lemma rejection_without_message:
  assumes "loadPending w" "\<not> has_message e"
  shows "loadSocksFile_settled env (LoadRejected e) w = w\<lparr>loadPending := False\<rparr>"
  using assms by (simp add: loadSocksFile_settled_def load_catch_def)

text \<open>
  The fallback when the second handler can read the message of what it caught. For every
  environment, descriptor and world, a constructor whose worker factory throws returns,
  with the readiness promise pending and the module load started. Whatever the
  application and the module then do while the load is pending, the promise is never
  rejected, and when the load settles (the module with its Peer, a module without one, or
  a rejection) the promise is resolved afterwards and \<open>isReady\<close> is set, with the loaded
  Peer or the stand-in bound; when the load did not deliver a Peer, the stand-in is bound.
\<close>

theorem fallback_recovery:
  "WorkBoots_constructor env (Some f) (FactoryThrows e) w = Returns (fallback_world w) \<and>
   WorkBoots_ready (fallback_world w) = Pending \<and>
   loadPending (fallback_world w) \<and>
   (\<forall>ss. list_all while_loading ss \<longrightarrow>
      (WorkBoots_ready (run env ss (fallback_world w)) = Pending \<or>
       WorkBoots_ready (run env ss (fallback_world w)) = Resolved) \<and>
      (\<forall>r. catch_reads_message env r (run env ss (fallback_world w)) \<longrightarrow>
           WorkBoots_ready (loadSocksFile_settled env r (run env ss (fallback_world w))) = Resolved \<and>
           wb_isReady (the_boots (loadSocksFile_settled env r (run env ss (fallback_world w)))) \<and>
           (wb_socks (the_boots (loadSocksFile_settled env r (run env ss (fallback_world w)))) = Some TheSocks \<or>
            wb_socks (the_boots (loadSocksFile_settled env r (run env ss (fallback_world w)))) = Some MockSocks) \<and>
           (r \<noteq> Loaded True \<longrightarrow>
            wb_socks (the_boots (loadSocksFile_settled env r (run env ss (fallback_world w)))) = Some MockSocks)))"
proof (intro conjI allI impI)
  show "WorkBoots_constructor env (Some f) (FactoryThrows e) w = Returns (fallback_world w)"
    by (rule constructor_factory_throws)
  show "WorkBoots_ready (fallback_world w) = Pending"
    by (simp add: WorkBoots_ready_def fallback_world_def awaiting_load_def)
  show "loadPending (fallback_world w)" by (simp add: fallback_world_def)
next
  fix ss
  assume "list_all while_loading ss"
  from awaiting_run [OF awaiting_fallback_world this]
  have a: "awaiting (run env ss (fallback_world w))" .
  then show "WorkBoots_ready (run env ss (fallback_world w)) = Pending \<or>
       WorkBoots_ready (run env ss (fallback_world w)) = Resolved"
    by (simp add: awaiting_def WorkBoots_ready_def)
  fix r
  assume "catch_reads_message env r (run env ss (fallback_world w))"
  note s = load_settled_ready [OF a this]
  from s show "WorkBoots_ready (loadSocksFile_settled env r (run env ss (fallback_world w))) = Resolved"
    by (simp add: WorkBoots_ready_def)
  from s show "wb_isReady (the_boots (loadSocksFile_settled env r (run env ss (fallback_world w))))"
    by simp
  from s show "wb_socks (the_boots (loadSocksFile_settled env r (run env ss (fallback_world w)))) = Some TheSocks \<or>
            wb_socks (the_boots (loadSocksFile_settled env r (run env ss (fallback_world w)))) = Some MockSocks"
    by simp
  assume "r \<noteq> Loaded True"
  with s show "wb_socks (the_boots (loadSocksFile_settled env r (run env ss (fallback_world w)))) = Some MockSocks"
    by simp
qed

theorem fallback_recovery_witness:
  "WorkBoots_constructor node_env (Some ''./socks.js'') failing_factory start =
     Returns (fallback_world start) \<and>
   list_all while_loading fallback_steps \<and>
   WorkBoots_ready (loadSocksFile_settled node_env (Loaded True)
      (run node_env fallback_steps (fallback_world start))) = Resolved \<and>
   wb_socks (the_boots (loadSocksFile_settled node_env (Loaded True)
      (run node_env fallback_steps (fallback_world start)))) = Some TheSocks \<and>
   LoadRejected (Error ''Cannot find module'') \<noteq> Loaded True \<and>
   WorkBoots_ready (loadSocksFile_settled node_env (LoadRejected (Error ''Cannot find module''))
      (run node_env fallback_steps (fallback_world start))) = Resolved \<and>
   wb_socks (the_boots (loadSocksFile_settled node_env (LoadRejected (Error ''Cannot find module''))
      (run node_env fallback_steps (fallback_world start)))) = Some MockSocks"
proof -
  note fr = fallback_recovery [of node_env "''./socks.js''" "Error ''unsupported''" start]
  have h: "list_all while_loading fallback_steps" by code_simp
  note after = fr [THEN conjunct2, THEN conjunct2, THEN conjunct2, THEN spec, THEN mp, OF h,
    THEN conjunct2]
  have n: "LoadRejected (Error ''Cannot find module'') \<noteq> Loaded True" by simp
  have c1: "catch_reads_message node_env (Loaded True)
      (run node_env fallback_steps (fallback_world start))" by code_simp
  have c2: "catch_reads_message node_env (LoadRejected (Error ''Cannot find module''))
      (run node_env fallback_steps (fallback_world start))" by code_simp
  have s: "wb_socks (the_boots (loadSocksFile_settled node_env (Loaded True)
      (run node_env fallback_steps (fallback_world start)))) = Some TheSocks" by code_simp
  from fr [THEN conjunct1] h after [THEN spec, THEN mp, OF c1]
    after [THEN spec, THEN mp, OF c2] n s
  show ?thesis by (simp add: failing_factory_def)
qed

text \<open>
  Claim C4. Fallback recovery: for every Controller built with a descriptor and a worker
  factory that throws, the \<^verbatim>\<open>ready()\<close> promise still resolves; if the module load fails
  too, a stand-in Peer is bound and the channel reaches the ready state all the same.
  The code when the load is rejected with \<^verbatim>\<open>undefined\<close>: the handler that builds the
  stand-in first logs \<^verbatim>\<open>error.message\<close>, which throws a TypeError on \<^verbatim>\<open>undefined\<close>, so
  nothing after it runs. The load is over, no Peer and no stand-in is bound, \<open>isReady\<close>
  is false and the promise is still pending, with no handler left to settle it.
\<close>

theorem rejected_load_stays_pending:
  "returns (script node_env rejected_undefined start) \<and>
   \<not> loadPending (world_of (script node_env rejected_undefined start)) \<and>
   WorkBoots_ready (world_of (script node_env rejected_undefined start)) = Pending \<and>
   \<not> wb_isReady (the_boots (world_of (script node_env rejected_undefined start))) \<and>
   wb_socks (the_boots (world_of (script node_env rejected_undefined start))) = None \<and>
   wb_boots (the_boots (world_of (script node_env rejected_undefined start))) = None"
  by code_simp

section \<open>The local delivery entry points\<close>


text \<open>
  What an application callback throws leaves \<^verbatim>\<open>onMessageLocal\<close>, on both objects: neither
  method catches.
\<close>

lemma callback_exception_propagates:
  "wb_onMessageCallback (the_boots w) = Some (Throwing n v) \<Longrightarrow>
     WorkBoots_onMessageLocal d og tr w = Throws (Thrown v) (emit (Invoked n [envelope d]) w)"
  "sk_onMessageCallback (the_socks w) = Some (Throwing n v) \<Longrightarrow>
     Socks_onMessageLocal d og tr w = Throws (Thrown v) (emit (Invoked n [d]) w)"
  by (simp_all add: WorkBoots_onMessageLocal_def Socks_onMessageLocal_def)




section \<open>Readiness in the remote path\<close>

text \<open>
  Claim C10. When worker support is detected and the factory returns a handle, the
  constructor itself resolves the readiness promise and sets \<open>isReady\<close>: no message has
  been observed (the queue of the internal listener is empty, the trace and the Peer are
  as before, the handle is stored as the factory returned it), so a resolved \<^verbatim>\<open>ready()\<close>
  says nothing about the Peer having sent the sentinel.
\<close>

theorem ready_resolves_during_construction:
  assumes "detectWorkerSupport env"
  shows "WorkBoots_constructor env (Some f) (FactoryReturns (Some h)) w =
           Returns (w\<lparr>the_boots := resolved_remote h\<rparr>) \<and>
         WorkBoots_ready (w\<lparr>the_boots := resolved_remote h\<rparr>) = Resolved \<and>
         wb_isReady (resolved_remote h) \<and>
         wb_worker (resolved_remote h) = Some h \<and>
         wb_receivedBeforeReady (resolved_remote h) = Some [] \<and>
         trace (w\<lparr>the_boots := resolved_remote h\<rparr>) = trace w \<and>
         the_socks (w\<lparr>the_boots := resolved_remote h\<rparr>) = the_socks w"
  using assms
  by (simp add: WorkBoots_constructor_def WorkBoots_onMessage_def upd_boots_def Let_def
        try_instantiateWorker_def resolve_def resolved_remote_def WorkBoots_ready_def)

theorem ready_resolves_during_construction_witness:
  "detectWorkerSupport node_env \<and>
   WorkBoots_constructor node_env (Some ''./socks.js'') (FactoryReturns (Some plain_handle)) start =
     Returns (start\<lparr>the_boots := resolved_remote plain_handle\<rparr>) \<and>
   WorkBoots_ready (start\<lparr>the_boots := resolved_remote plain_handle\<rparr>) = Resolved \<and>
   trace (start\<lparr>the_boots := resolved_remote plain_handle\<rparr>) = [] \<and>
   \<not> sk_sentReadyMessage (the_socks (start\<lparr>the_boots := resolved_remote plain_handle\<rparr>))"
proof -
  have h: "detectWorkerSupport node_env" by code_simp
  have t: "trace start = []" "\<not> sk_sentReadyMessage (the_socks start)" by code_simp+
  from ready_resolves_during_construction [OF h, of "''./socks.js''" plain_handle start] h t
  show ?thesis by simp
qed

section \<open>The queue of the Peer\<close>

text \<open>
  Before readiness a post is appended to the queue and nothing is dispatched; \<^verbatim>\<open>ready()\<close>
  on a Peer that has neither a usable host nor a Controller sets \<open>isReady\<close> and leaves
  the queue as it is. On a host in Node, \<^verbatim>\<open>ready()\<close> posts the queued tuples in the order
  they were queued, each once, and empties the queue, provided no queued payload is
  \<^verbatim>\<open>null\<close>; the sentinel, which \<^verbatim>\<open>ready()\<close> itself posts while \<open>isReady\<close> is still false,
  is queued behind them and reaches the host last.
\<close>

lemma postMessage_before_ready:
  "\<not> sk_isReady (the_socks w) \<Longrightarrow>
     Socks_postMessage env d og tr w =
       Returns (upd_socks (\<lambda>s. s\<lparr>sk_postsBeforeReady := sk_postsBeforeReady s @ [(d, og, tr)]\<rparr>) w)"
  by (simp add: Socks_postMessage_def)

lemma ready_before_adoption:
  assumes "\<not> isWorkerSupported env (the_socks w)" "sk_boots (the_socks w) = None"
    "\<not> sk_sentReadyMessage (the_socks w)"
  shows "Socks_ready env w = Returns (upd_socks (\<lambda>s. s\<lparr>sk_isReady := True\<rparr>) w)"
  using assms by (simp add: Socks_ready_def processReadyMessages_def upd_socks_def)

lemma node_host_supported: "node_host env w \<Longrightarrow> isWorkerSupported env (the_socks w)"
  by (cases "sk_self (the_socks w)") (simp_all add: node_host_def isWorkerSupported_def)

lemma node_host_postMessage:
  assumes "node_host env w" "sk_isReady (the_socks w)" "d \<noteq> JNull"
  shows "Socks_postMessage env d og tr w = Returns (emit (node_post (d, og, tr)) w)"
proof -
  from Socks_message_not_null [OF assms(3)] obtain m where m: "Socks_message d = Inr m" ..
  from assms(1) obtain h where h: "sk_self (the_socks w) = Some h" "has_postMessage h"
    by (cases "sk_self (the_socks w)") (simp_all add: node_host_def)
  from assms(1) have e: "\<not> isBrowser env" "isNode env" by (simp_all add: node_host_def)
  from m h e assms(2) node_host_supported [OF assms(1)] show ?thesis
    by (simp add: Socks_postMessage_def self_postMessage_def node_post_def)
qed

lemma node_host_emit: "node_host env (emit e w) = node_host env w"
  by (simp add: node_host_def emit_def)

lemma node_host_forEach:
  "node_host env w \<Longrightarrow> sk_isReady (the_socks w) \<Longrightarrow> \<forall>a \<in> set q. fst a \<noteq> JNull \<Longrightarrow>
     forEach_postMessage env q w = Returns (w\<lparr>trace := trace w @ map node_post q\<rparr>)"
proof (induction q arbitrary: w)
  case Nil
  show ?case by simp
next
  case (Cons a q)
  obtain d og tr where a: "a = (d, og, tr)" by (cases a)
  from Cons.prems(3) a have d: "d \<noteq> JNull" and rest: "\<forall>a \<in> set q. fst a \<noteq> JNull"
    by simp_all
  let ?w1 = "emit (node_post a) w"
  from node_host_postMessage [OF Cons.prems(1,2) d, of og tr] a
  have p: "Socks_postMessage env d og tr w = Returns ?w1" by simp
  from Cons.prems(1) have n: "node_host env ?w1" by (simp add: node_host_emit)
  from Cons.prems(2) have r: "sk_isReady (the_socks ?w1)" by (simp add: emit_def)
  from Cons.IH [OF n r rest] p a show ?case by (simp add: emit_def)
qed

lemma node_host_ready:
  assumes n: "node_host env w" and nr: "\<not> sk_isReady (the_socks w)"
    and q: "\<forall>a \<in> set (sk_postsBeforeReady (the_socks w)). fst a \<noteq> JNull"
  shows "Socks_ready env w =
     Returns (w\<lparr>the_socks := (the_socks w)\<lparr>sk_postsBeforeReady := [], sk_isReady := True,
                    sk_sentReadyMessage := True\<rparr>,
               trace := trace w @ map node_post (sk_postsBeforeReady (the_socks w))
                          @ [node_post (socks_loaded, JUndefined, [])]\<rparr>)"
proof -
  let ?q = "sk_postsBeforeReady (the_socks w) @ [(socks_loaded, JUndefined, [])]"
  let ?w2 = "w\<lparr>the_socks := (the_socks w)\<lparr>sk_postsBeforeReady := ?q, sk_sentReadyMessage := True,
                  sk_isReady := True\<rparr>\<rparr>"
  from n have n2: "node_host env ?w2" by (simp add: node_host_def)
  have r2: "sk_isReady (the_socks ?w2)" by simp
  from q have q2: "\<forall>a \<in> set ?q. fst a \<noteq> JNull" by (simp add: socks_loaded_def)
  from node_host_forEach [OF n2 r2 q2]
  have "forEach_postMessage env ?q ?w2 = Returns (?w2\<lparr>trace := trace ?w2 @ map node_post ?q\<rparr>)" .
  with nr node_host_supported [OF n] show ?thesis
    by (simp add: Socks_ready_def Socks_postMessage_def processReadyMessages_def upd_socks_def)
qed

text \<open>
  Claim C3. Pre-readiness queuing on the Peer: tuples posted before \<open>isReady\<close> are queued
  and not dispatched; once the sentinel has actually been sent the queue is drained in
  the order of enqueuing, each tuple once, and cleared. The code at a Peer on a host in
  Node with the posts \<^verbatim>\<open>{data: 1}\<close>, \<^verbatim>\<open>null\<close>, \<^verbatim>\<open>{data: 2}\<close> followed by
  \<^verbatim>\<open>ready()\<close>: the host receives \<^verbatim>\<open>{data: 1}\<close> before any sentinel, the drain then throws
  at \<^verbatim>\<open>null\<close> (\<^verbatim>\<open>typeof null === 'object'\<close>, and \<^verbatim>\<open>'data' in null\<close> is a TypeError),
  \<^verbatim>\<open>{data: 2}\<close> and the sentinel are never sent, and the queue still holds all four tuples
  although \<open>isReady\<close> and \<open>sentReadyMessage\<close> are both set.
\<close>

theorem drain_stops_at_null:
  "\<not> returns (script node_env queued_null start) \<and>
   trace (world_of (script node_env queued_null start)) =
     [SelfPostMessage [envelope (JNum 1), JArr []]] \<and>
   sk_postsBeforeReady (the_socks (world_of (script node_env queued_null start))) =
     [(envelope (JNum 1), JUndefined, []), (JNull, JUndefined, []),
      (envelope (JNum 2), JUndefined, []), (socks_loaded, JUndefined, [])] \<and>
   sk_isReady (the_socks (world_of (script node_env queued_null start))) \<and>
   sk_sentReadyMessage (the_socks (world_of (script node_env queued_null start)))"
  by code_simp

text \<open>
  Without the \<^verbatim>\<open>null\<close>: the three queued messages reach the host first and the sentinel
  last.
\<close>

theorem remote_sentinel_last:
  "returns (script node_env queued_remote start) \<and>
   trace (world_of (script node_env queued_remote start)) =
     [SelfPostMessage [envelope (JNum 1), JArr []],
      SelfPostMessage [envelope (JNum 2), JArr []],
      SelfPostMessage [envelope (JNum 3), JArr []],
      SelfPostMessage [socks_loaded, JArr []]] \<and>
   sk_postsBeforeReady (the_socks (world_of (script node_env queued_remote start))) = []"
  by code_simp

section \<open>Envelopes over the bridge\<close>

text \<open>
  From the Controller to the Peer the message arrives as \<^verbatim>\<open>postMessage\<close> built it. From
  the Peer to the Controller, \<^verbatim>\<open>Socks.postMessage\<close> passes the envelope it built to
  \<^verbatim>\<open>WorkBoots.onMessageLocal\<close>, which wraps its argument once more. The Controller's
  own test \<^verbatim>\<open>'data' in data\<close> has no \<^verbatim>\<open>typeof\<close> guard and throws on a primitive.
\<close>

lemma bridge_controller_to_peer:
  assumes "wb_isReady (the_boots w)" "\<not> can_post (the_boots w)"
    "wb_socks (the_boots w) = Some TheSocks"
    "sk_onMessageCallback (the_socks w) = Some (AppCallback n)"
    "WorkBoots_message d = Inr m"
  shows "WorkBoots_postMessage env d og tr w =
     Returns (emit (Invoked n [m]) (emit (SocksOnMessageLocal [m, JArr tr]) w))"
  using assms
  by (simp add: WorkBoots_postMessage_def Socks_onMessageLocal_def Let_def emit_def)

lemma bridge_peer_to_controller:
  assumes "sk_isReady (the_socks w)" "\<not> isWorkerSupported env (the_socks w)"
    "sk_boots (the_socks w) = Some TheBoots"
    "wb_onMessageCallback (the_boots w) = Some (AppCallback n)"
    "Socks_message d = Inr m"
  shows "Socks_postMessage env d og tr w =
     Returns (emit (Invoked n [envelope m]) (emit (BootsOnMessageLocal [m, og, JArr tr]) w))"
  using assms
  by (simp add: Socks_postMessage_def boots_onMessageLocal_def WorkBoots_onMessageLocal_def
        emit_def)

lemma message_of_object:
  "Socks_message (JObj kvs) = Inr (if map_of kvs ''data'' \<noteq> None then JObj kvs else envelope (JObj kvs))"
  "WorkBoots_message (JObj kvs) = Inr (if map_of kvs ''data'' \<noteq> None then JObj kvs else envelope (JObj kvs))"
  by (simp_all add: Socks_message_def WorkBoots_message_def)

lemma message_of_primitive:
  "Socks_message (JStr s) = Inr (envelope (JStr s))"
  "\<exists>e. WorkBoots_message (JStr s) = Inl (TypeError e)"
  "\<exists>e. Socks_message JNull = Inl (TypeError e)"
  by (simp_all add: Socks_message_def WorkBoots_message_def)

text \<open>
  Claim C1. Wrap/unwrap round trip: a payload \<open>p\<close> that is not an envelope reaches the
  callback on the other side as an argument whose \<open>data\<close> is \<open>p\<close>. The code in the
  repository's own round-trip test over the bridge: the Peer's handler receives
  \<^verbatim>\<open>{data: {elite: 313370}}\<close>, its reply \<^verbatim>\<open>{elite: 313370}\<close> reaches the application callback
  as \<^verbatim>\<open>{data: {data: {elite: 313370}}}\<close>, whose \<open>data\<close> is the envelope and not the payload.
\<close>

theorem bridge_reply_wrapped_twice:
  "returns (script node_env test_round_trip start) \<and>
   trace (world_of (script node_env test_round_trip start)) =
     [BootsOnMessageLocal [socks_loaded],
      SocksOnMessageLocal [envelope elite, JArr []],
      Invoked 1 [envelope elite],
      BootsOnMessageLocal [envelope elite, JUndefined, JArr []],
      Invoked 0 [envelope (envelope elite)]] \<and>
   opt_data (envelope (envelope elite)) = envelope elite \<and>
   envelope elite \<noteq> elite"
  by code_simp

text \<open>
  Claim C7. No double wrapping: a payload already shaped \<^verbatim>\<open>{data: p}\<close> reaches the callback
  as \<^verbatim>\<open>{data: p}\<close>. The code over the bridge, for \<^verbatim>\<open>socks.postMessage({data: 1})\<close> on an
  adopted, ready Peer: the application callback of the Controller is called with
  \<^verbatim>\<open>{data: {data: 1}}\<close>.
\<close>

theorem envelope_wrapped_again:
  "returns (script node_env
     (bridge_setup @ [Boots_onMessage (AppCallback 0),
        Peer (PostMessage (envelope (JNum 1)) JUndefined [])]) start) \<and>
   trace (world_of (script node_env
     (bridge_setup @ [Boots_onMessage (AppCallback 0),
        Peer (PostMessage (envelope (JNum 1)) JUndefined [])]) start)) =
     [BootsOnMessageLocal [socks_loaded],
      BootsOnMessageLocal [envelope (JNum 1), JUndefined, JArr []],
      Invoked 0 [envelope (envelope (JNum 1))]] \<and>
   envelope (envelope (JNum 1)) \<noteq> envelope (JNum 1)"
  by code_simp

section \<open>The sentinel and the application\<close>

text \<open>
  The internal listener consumes the sentinel, but it lives in the one callback slot that
  \<^verbatim>\<open>onMessage\<close> overwrites, and the constructor registers it before the worker exists, so
  it is never attached to the worker.
\<close>

lemma listener_consumes_sentinel:
  "invoke VelcroAndLaces (envelope socks_loaded # rest) w = Returns (resolve w)"
  by (simp add: velcroAndLaces_def envelope_def)

text \<open>
  Claim C2. The sentinel \<^verbatim>\<open>'socks loaded'\<close> is never passed to an application callback,
  whenever the application registers it. The code in the fallback, when the application
  registers its callback before the module load settles: adoption sends the sentinel
  over the bridge and the application callback is called with \<^verbatim>\<open>{data: 'socks loaded'}\<close>.
\<close>

theorem sentinel_reaches_application:
  "returns (script node_env early_listener start) \<and>
   trace (world_of (script node_env early_listener start)) =
     [BootsOnMessageLocal [socks_loaded], Invoked 0 [envelope socks_loaded]] \<and>
   WorkBoots_ready (world_of (script node_env early_listener start)) = Resolved"
  by code_simp

text \<open>
  The remote path: the worker's \<^verbatim>\<open>{data: 'socks loaded'}\<close> goes to the handler attached to
  the worker, which is the application's.
\<close>

theorem sentinel_reaches_application_remote:
  "returns (script node_env remote_listener start) \<and>
   trace (world_of (script node_env remote_listener start)) = [Invoked 0 [envelope socks_loaded]]"
  by code_simp

section \<open>A Controller without descriptor\<close>

lemma preready_short_circuit:
  "\<not> wb_isReady (the_boots w) \<Longrightarrow>
     WorkBoots_postMessage env d og tr w =
       (case wb_onMessageCallback (the_boots w) of
          None \<Rightarrow> Throws not_a_function w
        | Some cb \<Rightarrow> invoke cb [d, if og = JUndefined then JNull else og, JArr tr] w)"
  by (simp add: WorkBoots_postMessage_def Let_def)

text \<open>
  Claim C5. Missing-descriptor contract: the constructor does not throw, \<^verbatim>\<open>ready()\<close> is
  rejected with \<^verbatim>\<open>no socksFile defined!\<close>, and \<^verbatim>\<open>postMessage\<close> and \<^verbatim>\<open>terminate\<close> afterwards
  do not throw. The code at \<^verbatim>\<open>new WorkBoots({})\<close>: the constructor returns, the promise is
  rejected with that error, \<^verbatim>\<open>terminate()\<close> returns and changes nothing, and
  \<^verbatim>\<open>postMessage({test: 'data'})\<close> throws a TypeError, the callback slot being empty.
\<close>

theorem no_socksFile_postMessage_throws:
  "script node_env [NewWorkBoots None failing_factory] start =
     Returns (start\<lparr>the_boots := no_socksFile\<rparr>) \<and>
   WorkBoots_ready (start\<lparr>the_boots := no_socksFile\<rparr>) = Rejected (Error ''no socksFile defined!'') \<and>
   step_exec node_env Boots_terminate (start\<lparr>the_boots := no_socksFile\<rparr>) =
     Returns (start\<lparr>the_boots := no_socksFile\<rparr>) \<and>
   step_exec node_env (Boots_postMessage (JObj [(''test'', JStr ''data'')]) JUndefined [])
       (start\<lparr>the_boots := no_socksFile\<rparr>) =
     Throws not_a_function (start\<lparr>the_boots := no_socksFile\<rparr>)"
  by code_simp

text \<open>
  Claim C6. Pre-ready short circuit: a Controller that is not ready forwards the payload
  to the registered callback, and \<^verbatim>\<open>postMessage\<close> never throws when no callback is
  registered. The code forwards \<^verbatim>\<open>(data, origin, transfer)\<close> to the callback in the slot
  (\<open>preready_short_circuit\<close>); at a Controller that is not ready and has an empty slot,
  the one built without a descriptor, \<^verbatim>\<open>postMessage({elite: 313370}, 'localhost:8080')\<close>
  throws a TypeError and nothing is forwarded or sent.
\<close>

theorem preready_postMessage_without_callback:
  "\<not> wb_isReady (the_boots (world_of (script browser_env [NewWorkBoots None failing_factory] start))) \<and>
   wb_onMessageCallback (the_boots (world_of (script browser_env [NewWorkBoots None failing_factory] start))) = None \<and>
   step_exec browser_env (Boots_postMessage elite (JStr ''localhost:8080'') [])
       (world_of (script browser_env [NewWorkBoots None failing_factory] start)) =
     Throws not_a_function (world_of (script browser_env [NewWorkBoots None failing_factory] start))"
  by code_simp

end
